theory Spec2Isabelle
  imports Complex_Main
begin

section \<open>Single-node multi-GPU PageRank: the solver of pagerank.cu\<close>

text \<open>
  The development follows \<^verbatim>\<open>cpp/src/snmg/link_analysis/pagerank.cu\<close>: the transition
  kernel, the class \<^verbatim>\<open>SNMGpagerank\<close> (constructor, destructor, \<^verbatim>\<open>setup\<close>, \<^verbatim>\<open>solve\<close>), the
  templated driver \<^verbatim>\<open>gdf_snmg_pagerank_impl\<close> and the validating entry point
  \<^verbatim>\<open>gdf_snmg_pagerank\<close>.
\<close>

subsection \<open>Values of the template parameter ValueType\<close>

text \<open>
  \<^verbatim>\<open>ValueType\<close> is \<^verbatim>\<open>float\<close> or \<^verbatim>\<open>double\<close>. It is modelled by the real numbers extended with
  the two infinities and NaN, with the IEEE-754 rules for them and without rounding,
  overflow or a signed zero. The point of the extension is that a division by zero is a
  visible value of the model (an infinity or NaN), as it is on the device, and not the
  \<open>0\<close> that division on \<^typ>\<open>real\<close> answers.
\<close>

datatype ValueType = Fin real | PInf | NInf | NaN

fun fadd :: "ValueType \<Rightarrow> ValueType \<Rightarrow> ValueType" where
  "fadd NaN y = NaN"
| "fadd x NaN = NaN"
| "fadd (Fin a) (Fin b) = Fin (a + b)"
| "fadd (Fin a) PInf = PInf"
| "fadd (Fin a) NInf = NInf"
| "fadd PInf (Fin b) = PInf"
| "fadd NInf (Fin b) = NInf"
| "fadd PInf PInf = PInf"
| "fadd NInf NInf = NInf"
| "fadd PInf NInf = NaN"
| "fadd NInf PInf = NaN"

fun fmul :: "ValueType \<Rightarrow> ValueType \<Rightarrow> ValueType" where
  "fmul NaN y = NaN"
| "fmul x NaN = NaN"
| "fmul (Fin a) (Fin b) = Fin (a * b)"
| "fmul (Fin a) PInf = (if a = 0 then NaN else if 0 < a then PInf else NInf)"
| "fmul (Fin a) NInf = (if a = 0 then NaN else if 0 < a then NInf else PInf)"
| "fmul PInf (Fin b) = (if b = 0 then NaN else if 0 < b then PInf else NInf)"
| "fmul NInf (Fin b) = (if b = 0 then NaN else if 0 < b then NInf else PInf)"
| "fmul PInf PInf = PInf"
| "fmul NInf NInf = PInf"
| "fmul PInf NInf = NInf"
| "fmul NInf PInf = NInf"

fun fdiv :: "ValueType \<Rightarrow> ValueType \<Rightarrow> ValueType" where
  "fdiv NaN y = NaN"
| "fdiv x NaN = NaN"
| "fdiv (Fin a) (Fin b) =
     (if b = 0 then (if a = 0 then NaN else if 0 < a then PInf else NInf)
      else Fin (a / b))"
| "fdiv (Fin a) PInf = Fin 0"
| "fdiv (Fin a) NInf = Fin 0"
| "fdiv PInf (Fin b) = (if 0 \<le> b then PInf else NInf)"
| "fdiv NInf (Fin b) = (if 0 \<le> b then NInf else PInf)"
| "fdiv PInf PInf = NaN"
| "fdiv NInf NInf = NaN"
| "fdiv PInf NInf = NaN"
| "fdiv NInf PInf = NaN"

fun fabs :: "ValueType \<Rightarrow> ValueType" where
  "fabs (Fin a) = Fin \<bar>a\<bar>"
| "fabs PInf = PInf"
| "fabs NInf = PInf"
| "fabs NaN = NaN"

fun fsqrt :: "ValueType \<Rightarrow> ValueType" where
  "fsqrt (Fin a) = (if a < 0 then NaN else Fin (sqrt a))"
| "fsqrt PInf = PInf"
| "fsqrt NInf = NaN"
| "fsqrt NaN = NaN"

text \<open>The comparison \<^verbatim>\<open><\<close>: false as soon as one side is NaN.\<close>

fun fless :: "ValueType \<Rightarrow> ValueType \<Rightarrow> bool" where
  "fless (Fin a) (Fin b) = (a < b)"
| "fless (Fin a) PInf = True"
| "fless NInf (Fin b) = True"
| "fless NInf PInf = True"
| "fless x y = False"

text \<open>Conversions to \<^verbatim>\<open>ValueType\<close> from \<^verbatim>\<open>size_t\<close> and from \<^verbatim>\<open>IndexType\<close> (\<^verbatim>\<open>int\<close>).\<close>

definition of_size_t :: "nat \<Rightarrow> ValueType" where
  "of_size_t n = Fin (real n)"

definition of_index :: "int \<Rightarrow> ValueType" where
  "of_index d = Fin (real_of_int d)"

abbreviation zero :: ValueType where "zero \<equiv> Fin 0"
abbreviation one :: ValueType where "one \<equiv> Fin 1"

subsection \<open>Faults, raw arrays and the allocator\<close>

text \<open>
  A method of the class either returns or throws a \<^verbatim>\<open>std::string\<close>. A read or write
  through a raw pointer outside the array it points to is undefined behaviour in the
  source; the model stops there with \<open>OutOfBounds\<close>.
\<close>

datatype fault = Exception string | OutOfBounds

definition rd :: "'a list \<Rightarrow> nat \<Rightarrow> fault + 'a" where
  "rd xs i = (if i < length xs then Inr (xs ! i) else Inl OutOfBounds)"

text \<open>An index of type \<^verbatim>\<open>IndexType\<close> is signed: a negative one is out of range.\<close>

definition rd_idx :: "'a list \<Rightarrow> int \<Rightarrow> fault + 'a" where
  "rd_idx xs j = (if 0 \<le> j \<and> nat j < length xs then Inr (xs ! nat j) else Inl OutOfBounds)"

text \<open>\<^verbatim>\<open>size_t\<close> is 64 bits wide: subtraction wraps, and a signed value converts modulo \<open>2^64\<close>.\<close>

definition size_t_sub :: "nat \<Rightarrow> nat \<Rightarrow> nat" where
  "size_t_sub a b = (a + 2 ^ 64 - b mod 2 ^ 64) mod 2 ^ 64"

definition size_t_of_int :: "int \<Rightarrow> nat" where
  "size_t_of_int i = nat (i mod 2 ^ 64)"

text \<open>
  The template arguments that occur in the file, with their \<^verbatim>\<open>sizeof\<close>.
\<close>

datatype c_type = c_int | c_float | c_double

fun sizeof :: "c_type \<Rightarrow> nat" where
  "sizeof c_int = 4"
| "sizeof c_float = 4"
| "sizeof c_double = 8"

text \<open>
  Modelled from the spec: the macros \<^verbatim>\<open>ALLOC_TRY\<close> and \<^verbatim>\<open>ALLOC_FREE_TRY\<close> of
  \<^verbatim>\<open>rmm_utils.h\<close> are not among the sources; the spec (1) gives the allocator as the
  capabilities "allocate N bytes on device, zero-initialized or not" and "free". Its
  calls are kept as a log, one event per call in program order; a buffer is named by
  its role and the worker that owns it. The number in \<open>Alloc\<close> is the byte count the
  source asks for. Allocation is taken to succeed, and a fresh buffer holds whatever
  the device memory held (the \<open>junk\<close> argument of the functions below).
\<close>

datatype buffer = Bookmark nat | Val nat | DegreeLoc nat | Pagerank nat | PrColData

datatype rmm_event = Alloc buffer nat | Free buffer

type_synonym rmm = "rmm_event list"

text \<open>The buffers of a log that were allocated and not released afterwards.\<close>

fun held :: "rmm \<Rightarrow> buffer list" where
  "held [] = []"
| "held (Alloc b n # es) = (if Free b \<in> set es then held es else b # held es)"
| "held (Free b # es) = held es"

definition alloc_cells :: "nat \<Rightarrow> (nat \<Rightarrow> 'a) \<Rightarrow> 'a list" where
  "alloc_cells n junk = map junk [0..<n]"

subsection \<open>Vector primitives\<close>

text \<open>
  Modelled from the spec: \<^verbatim>\<open>fill\<close>, \<^verbatim>\<open>scal\<close>, \<^verbatim>\<open>addv\<close>, \<^verbatim>\<open>dot\<close>, \<^verbatim>\<open>nrm1\<close> and \<^verbatim>\<open>nrm2\<close> are
  declared in \<^verbatim>\<open>utilities/graph_utils.cuh\<close>, which is not among the sources. The spec
  (4.5) gives them as \<^verbatim>\<open>fill(length, buffer, value)\<close>, \<^verbatim>\<open>scale(length, factor, buffer)\<close> in
  place, \<^verbatim>\<open>addScalar(length, scalar, buffer)\<close> in place adding the scalar to every
  element, \<^verbatim>\<open>dot(length, a, b)\<close>, \<^verbatim>\<open>norm1(length, buffer)\<close> and \<^verbatim>\<open>norm2(length, buffer)\<close>.
  A buffer is the list of its cells; an in-place primitive rewrites the first
  \<open>length\<close> cells and leaves the others.
\<close>

definition fill :: "nat \<Rightarrow> ValueType list \<Rightarrow> ValueType \<Rightarrow> ValueType list" where
  "fill n x v = map (\<lambda>_. v) (take n x) @ drop n x"

definition scal :: "nat \<Rightarrow> ValueType \<Rightarrow> ValueType list \<Rightarrow> ValueType list" where
  "scal n a x = map (\<lambda>v. fmul a v) (take n x) @ drop n x"

definition addv :: "nat \<Rightarrow> ValueType \<Rightarrow> ValueType list \<Rightarrow> ValueType list" where
  "addv n a x = map (\<lambda>v. fadd v a) (take n x) @ drop n x"

definition dot :: "nat \<Rightarrow> ValueType list \<Rightarrow> ValueType list \<Rightarrow> ValueType" where
  "dot n x y = foldl fadd zero (map2 fmul (take n x) (take n y))"

definition nrm1 :: "nat \<Rightarrow> ValueType list \<Rightarrow> ValueType" where
  "nrm1 n x = foldl fadd zero (map fabs (take n x))"

definition nrm2 :: "nat \<Rightarrow> ValueType list \<Rightarrow> ValueType" where
  "nrm2 n x = fsqrt (foldl fadd zero (map (\<lambda>v. fmul v v) (take n x)))"


subsection \<open>The transition kernel\<close>

text \<open>
  \<^verbatim>\<open>transition_kernel\<close> is a grid-stride loop: the threads of the launch share the
  indices \<open>i < e\<close>, each index is written by one thread and no iteration reads what
  another wrote. The model runs the indices in increasing order, as a launch of one
  thread does. The loop body is \<^verbatim>\<open>val[i] = 1.0 / degree[ind[i]]\<close>, with no test of the
  divisor.
\<close>

function transition_kernel ::
  "nat \<Rightarrow> int list \<Rightarrow> int list \<Rightarrow> ValueType list \<Rightarrow> nat \<Rightarrow> fault + ValueType list" where
  "transition_kernel e ind degree val i =
     (if i < e then
        (case rd ind i of
           Inl f \<Rightarrow> Inl f
         | Inr j \<Rightarrow>
            (case rd_idx degree j of
               Inl f \<Rightarrow> Inl f
             | Inr d \<Rightarrow>
                if i < length val
                then transition_kernel e ind degree (val[i := fdiv one (of_index d)]) (Suc i)
                else Inl OutOfBounds))
      else Inr val)"
  by pat_completeness auto
termination
  by (relation "measure (\<lambda>(e, ind, degree, val, i). e - i)") auto

declare transition_kernel.simps [simp del]

text \<open>
  Modelled from the spec: \<^verbatim>\<open>flag_leafs_kernel\<close> and \<^verbatim>\<open>update_dangling_nodes\<close> are declared
  in \<^verbatim>\<open>utilities/graph_utils.cuh\<close>, which is not among the sources. The spec (4.4) gives
  their joint effect on the zero-filled bookmark: "set bookmark[v] = alpha for every
  vertex with degree 0 (dangling)". The kernel receives no \<open>alpha\<close>, so it can only mark
  the vertices of degree 0 (with a one), and \<^verbatim>\<open>update_dangling_nodes\<close> writes \<open>alpha\<close>
  into the marked cells.
\<close>

definition flag_leafs_kernel :: "nat \<Rightarrow> int list \<Rightarrow> ValueType list \<Rightarrow> ValueType list" where
  "flag_leafs_kernel n degree bookmark =
     map (\<lambda>i. if i < n \<and> i < length degree \<and> degree ! i = 0 then one else bookmark ! i)
       [0..<length bookmark]"

definition update_dangling_nodes :: "nat \<Rightarrow> ValueType list \<Rightarrow> ValueType \<Rightarrow> ValueType list" where
  "update_dangling_nodes n bookmark a =
     map (\<lambda>b. if b = one then a else b) (take n bookmark) @ drop n bookmark"

subsection \<open>The collectives\<close>

text \<open>
  \<^verbatim>\<open>snmg_degree\<close> (\<^verbatim>\<open>snmg/degree/degree.cuh\<close>) and \<^verbatim>\<open>SNMGcsrmv::run\<close> (\<^verbatim>\<open>snmg/blas/spmv.cuh\<close>)
  are not among the sources, and what they deliver to one worker depends on the shards
  of all workers. They are parameters of the model, seen from one worker:

  \<^item> \<open>snmg_degree x id part_off off ind degree_loc\<close> gives the truth value of the returned
    code (the source tests it with \<^verbatim>\<open>if\<close>) and the contents the call leaves in the
    worker's buffer \<^verbatim>\<open>degree[id]\<close>, cell by cell;
  \<^item> \<open>spmv_run id part_off off ind val x\<close> gives the contents the call leaves in the
    worker's vector \<^verbatim>\<open>pagerank[id]\<close>, cell by cell (the spec, 4.3: the input vector is
    mutated in place to the product).

  Both write into a buffer that exists already, so the buffer keeps its length.
\<close>

record collectives =
  snmg_degree :: "int \<Rightarrow> nat \<Rightarrow> nat list \<Rightarrow> int list \<Rightarrow> int list \<Rightarrow> int list \<Rightarrow> bool \<times> (nat \<Rightarrow> int)"
  spmv_run :: "nat \<Rightarrow> nat list \<Rightarrow> int list \<Rightarrow> int list \<Rightarrow> ValueType list \<Rightarrow> ValueType list
                 \<Rightarrow> nat \<Rightarrow> ValueType"

record SNMGinfo =
  get_thread_num :: nat
  get_num_threads :: nat

subsection \<open>The class SNMGpagerank\<close>

record SNMGpagerank =
  id_thr :: nat
  nt :: nat
  part_off :: "nat list"
  off :: "int list"
  ind :: "int list"
  v_glob :: nat
  v_loc :: nat
  e_loc :: nat
  alpha :: ValueType
  is_setup :: bool
  bookmark :: "ValueType list"
  val :: "ValueType list"

text \<open>
  The constructor. The member \<^verbatim>\<open>alpha\<close> is not initialised (\<open>alpha0\<close> is what it holds).
  \<^verbatim>\<open>e_loc\<close> is read from the device at \<^verbatim>\<open>off[v_loc]\<close>. The CUDA stream (always
  \<^verbatim>\<open>nullptr\<close>) and the cusparse handle are left out, and so are the launch
  configurations of the two kernels in \<^verbatim>\<open>transition_vals\<close> and \<^verbatim>\<open>flag_leafs\<close>.
\<close>

definition SNMGpagerank_ctor ::
  "c_type \<Rightarrow> SNMGinfo \<Rightarrow> nat list \<Rightarrow> int list \<Rightarrow> int list \<Rightarrow> ValueType \<Rightarrow> (nat \<Rightarrow> ValueType)
     \<Rightarrow> rmm \<Rightarrow> fault + SNMGpagerank \<times> rmm" where
  "SNMGpagerank_ctor val_t env part_off' off' ind' alpha0 junk m =
     (let i = get_thread_num env; n = get_num_threads env in
      case rd part_off' n of
        Inl f \<Rightarrow> Inl f
      | Inr vg \<Rightarrow>
         (case rd part_off' (i + 1) of
            Inl f \<Rightarrow> Inl f
          | Inr hi \<Rightarrow>
             (case rd part_off' i of
                Inl f \<Rightarrow> Inl f
              | Inr lo \<Rightarrow>
                 (case rd off' (size_t_sub hi lo) of
                    Inl f \<Rightarrow> Inl f
                  | Inr tmp_e \<Rightarrow>
                     Inr (\<lparr>id_thr = i, nt = n, part_off = part_off', off = off', ind = ind',
                           v_glob = vg, v_loc = size_t_sub hi lo, e_loc = size_t_of_int tmp_e,
                           alpha = alpha0, is_setup = False,
                           bookmark = alloc_cells vg junk,
                           val = alloc_cells (size_t_of_int tmp_e) junk\<rparr>,
                          m @ [Alloc (Bookmark i) (sizeof val_t * vg),
                               Alloc (Val i) (sizeof val_t * size_t_of_int tmp_e)])))))"

definition SNMGpagerank_dtor :: "SNMGpagerank \<Rightarrow> rmm \<Rightarrow> rmm" where
  "SNMGpagerank_dtor s m = m @ [Free (Bookmark (id_thr s)), Free (Val (id_thr s))]"

definition transition_vals :: "SNMGpagerank \<Rightarrow> int list \<Rightarrow> fault + SNMGpagerank" where
  "transition_vals s degree =
     (case transition_kernel (e_loc s) (ind s) degree (val s) 0 of
        Inl f \<Rightarrow> Inl f
      | Inr v \<Rightarrow> Inr (s\<lparr>val := v\<rparr>))"

definition flag_leafs :: "SNMGpagerank \<Rightarrow> int list \<Rightarrow> SNMGpagerank" where
  "flag_leafs s degree = s\<lparr>bookmark := flag_leafs_kernel (v_glob s) degree (bookmark s)\<rparr>"

text \<open>
  The degree vector that \<^verbatim>\<open>setup\<close> obtains: a fresh buffer of \<^verbatim>\<open>v_glob\<close> cells, as
  \<^verbatim>\<open>snmg_degree\<close> leaves it.
\<close>

definition degree_loc :: "collectives \<Rightarrow> (nat \<Rightarrow> int) \<Rightarrow> SNMGpagerank \<Rightarrow> int list" where
  "degree_loc X junk s =
     map (snd (snmg_degree X 1 (id_thr s) (part_off s) (off s) (ind s)
                 (alloc_cells (v_glob s) junk)))
       [0..<v_glob s]"

definition degree_failed :: "collectives \<Rightarrow> (nat \<Rightarrow> int) \<Rightarrow> SNMGpagerank \<Rightarrow> bool" where
  "degree_failed X junk s =
     fst (snmg_degree X 1 (id_thr s) (part_off s) (off s) (ind s) (alloc_cells (v_glob s) junk))"

text \<open>
  \<^verbatim>\<open>setup\<close> returns the fault it ended with (\<open>None\<close> for a normal return), the solver as
  the call leaves it and the allocator's log. \<open>idx_t\<close> is the template argument
  \<^verbatim>\<open>IndexType\<close>.
\<close>

definition setup_pagerank ::
  "c_type \<Rightarrow> collectives \<Rightarrow> (nat \<Rightarrow> int) \<Rightarrow> ValueType \<Rightarrow> SNMGpagerank \<Rightarrow> rmm
     \<Rightarrow> fault option \<times> SNMGpagerank \<times> rmm" where
  "setup_pagerank idx_t X junk a s m =
     (if \<not> is_setup s then
        (let s1 = s\<lparr>alpha := a\<rparr>;
             m1 = m @ [Alloc (DegreeLoc (id_thr s1)) (sizeof idx_t * v_glob s1)]
         in if degree_failed X junk s1
            then (Some (Exception ''SNMG Degree failed in Pagerank''), s1, m1)
            else
              (let s2 = s1\<lparr>bookmark := fill (v_glob s1) (bookmark s1) zero\<rparr>;
                   s3 = flag_leafs s2 (degree_loc X junk s1);
                   s4 = s3\<lparr>bookmark := update_dangling_nodes (v_glob s3) (bookmark s3) (alpha s3)\<rparr>
               in case transition_vals s4 (degree_loc X junk s1) of
                    Inl f \<Rightarrow> (Some f, s4, m1)
                  | Inr s5 \<Rightarrow> (None, s5\<lparr>is_setup := True\<rparr>, m1 @ [Free (DegreeLoc (id_thr s5))])))
      else (Some (Exception ''Setup can be called only once''), s, m))"

text \<open>
  The body of the \<^verbatim>\<open>for\<close> loop of \<^verbatim>\<open>solve\<close>, on the vector \<^verbatim>\<open>pr\<close> and the local
  \<^verbatim>\<open>dot_res\<close>, and the loop with its counter \<^verbatim>\<open>i\<close> of type \<^verbatim>\<open>int\<close>.
\<close>

definition solve_iteration ::
  "collectives \<Rightarrow> SNMGpagerank \<Rightarrow> ValueType list \<times> ValueType \<Rightarrow> ValueType list \<times> ValueType" where
  "solve_iteration X s st =
     (case st of (pr, dot_res) \<Rightarrow>
        (let pr1 = map (spmv_run X (id_thr s) (part_off s) (off s) (ind s) (val s) pr)
                     [0..<length pr];
             pr2 = scal (v_glob s) (alpha s) pr1;
             pr3 = addv (v_glob s) (fmul dot_res (fdiv one (of_size_t (v_glob s)))) pr2;
             dot_res' = dot (v_glob s) (bookmark s) pr3;
             pr4 = scal (v_glob s) (fdiv one (nrm2 (v_glob s) pr3)) pr3
         in (pr4, dot_res')))"

function solve_loop ::
  "collectives \<Rightarrow> SNMGpagerank \<Rightarrow> int \<Rightarrow> int \<Rightarrow> ValueType list \<times> ValueType
     \<Rightarrow> ValueType list \<times> ValueType" where
  "solve_loop X s max_iter i st =
     (if i < max_iter then solve_loop X s max_iter (i + 1) (solve_iteration X s st) else st)"
  by pat_completeness auto
termination
  by (relation "measure (\<lambda>(X, s, max_iter, i, st). nat (max_iter - i))") auto

declare solve_loop.simps [simp del]

text \<open>
  \<^verbatim>\<open>solve\<close> returns the fault it ended with, the solver as the call leaves it and the
  contents of the caller's buffer \<^verbatim>\<open>pagerank[id]\<close>.
\<close>

definition solve ::
  "collectives \<Rightarrow> int \<Rightarrow> SNMGpagerank \<Rightarrow> ValueType list
     \<Rightarrow> fault option \<times> SNMGpagerank \<times> ValueType list" where
  "solve X max_iter s pagerank =
     (if is_setup s then
        (let pr0 = fill (v_glob s) pagerank (fdiv one (of_size_t (v_glob s)));
             dot_res = dot (v_glob s) (bookmark s) pr0;
             (pr, d) = solve_loop X s max_iter 0 (pr0, dot_res)
         in (None, s, scal (v_glob s) (fdiv one (nrm1 (v_glob s) pr)) pr))
      else (Some (Exception ''Solve was called before setup''), s, pagerank))"

subsection \<open>Columns, status codes and the external collaborators of the driver\<close>

text \<open>
  Modelled from the spec: \<^verbatim>\<open>gdf_column\<close>, \<^verbatim>\<open>gdf_error\<close> and \<^verbatim>\<open>gdf_dtype\<close> are declared
  in the cudf headers, which are not among the sources. The model has the fields and
  the enumerators that the file uses, for the status codes of the spec (6):
  \<open>GDF_INVALID_API_CALL\<close> is InvalidArgument, \<open>GDF_COLUMN_SIZE_MISMATCH\<close> is
  ColumnSizeMismatch, \<open>GDF_UNSUPPORTED_DTYPE\<close> is UnsupportedDataType,
  \<open>GDF_VALIDITY_UNSUPPORTED\<close> is NullValuesUnsupported, and \<open>GDF_CUDA_ERROR\<close> stands for
  the generic Failure with which a collaborator reports that it failed. \<open>GDF_INT64\<close> and
  \<open>GDF_FLOAT64\<close> stand for element types other than the two the file names. The data
  of a column is the device array behind its pointer, \<open>NullData\<close> for \<^verbatim>\<open>nullptr\<close>; the
  width of the size field is not modelled.
\<close>

datatype gdf_error =
  GDF_SUCCESS | GDF_CUDA_ERROR | GDF_UNSUPPORTED_DTYPE | GDF_COLUMN_SIZE_MISMATCH
| GDF_VALIDITY_UNSUPPORTED | GDF_INVALID_API_CALL

datatype gdf_dtype = GDF_invalid | GDF_INT32 | GDF_INT64 | GDF_FLOAT32 | GDF_FLOAT64

datatype column_data = NullData | IndexData "int list" | ValueData "ValueType list"

record gdf_column =
  data :: column_data
  size_col :: nat
  dtype :: gdf_dtype
  null_count :: int

text \<open>
  What the driver receives from outside the file:

  \<^item> \<open>cudaGetDeviceCount\<close>, the number the CUDA runtime stores in \<^verbatim>\<open>dev_count\<close>;
  \<^item> \<open>gdf_snmg_coo2csr i rows cols\<close>, for worker \<open>i\<close> called with its two columns: the
    returned code and the arrays behind \<^verbatim>\<open>col_csr_off\<close> and \<^verbatim>\<open>col_csr_ind\<close>;
  \<^item> \<open>coo2csr_part_offset\<close>, the cells of the shared table \<^verbatim>\<open>part_offset\<close> as the
    conversion leaves them;
  \<^item> the collectives of the solver;
  \<^item> \<open>gdf_col_set_defaults\<close>;
  \<^item> what uninitialised memory holds: the member \<^verbatim>\<open>alpha\<close>, fresh buffers of values and
    of indices.
\<close>

record externals =
  cudaGetDeviceCount :: int
  gdf_snmg_coo2csr :: "nat \<Rightarrow> gdf_column \<Rightarrow> gdf_column \<Rightarrow> gdf_error \<times> int list \<times> int list"
  coo2csr_part_offset :: "nat \<Rightarrow> nat"
  collective_ops :: collectives
  gdf_col_set_defaults :: "gdf_column \<Rightarrow> gdf_column"
  junk_alpha :: ValueType
  junk_values :: "nat \<Rightarrow> ValueType"
  junk_indices :: "nat \<Rightarrow> int"

subsection \<open>The driver gdf_snmg_pagerank_impl\<close>

text \<open>
  The block under \<^verbatim>\<open>#pragma omp master\<close>: the column gets its defaults, a fresh buffer of
  \<^verbatim>\<open>part_offset[p]\<close> values, a copy of the worker's vector, its size and the element type
  \<^verbatim>\<open>GDF_FLOAT32\<close>, whatever \<^verbatim>\<open>val_t\<close> is.
\<close>

definition master_block ::
  "c_type \<Rightarrow> externals \<Rightarrow> nat \<Rightarrow> ValueType list \<Rightarrow> gdf_column \<Rightarrow> rmm \<Rightarrow> gdf_column \<times> rmm" where
  "master_block val_t E n pagerank_i pr_col m =
     ((gdf_col_set_defaults E pr_col)
        \<lparr>data := ValueData (take n pagerank_i), size_col := n, dtype := GDF_FLOAT32\<rparr>,
      m @ [Alloc PrColData (sizeof val_t * n)])"

text \<open>
  The body of the parallel region, run by worker \<open>i\<close> of \<open>p = n_gpus\<close>. The source and
  destination columns are passed to the conversion in swapped order. A fault of the
  solver (an exception, which nothing in the region catches) ends the run. The result
  is the worker's code \<^verbatim>\<open>status_i\<close>, the output column and the allocator's log. The
  solver's destructor runs at the end of the block. The two CSR columns are made with
  \<^verbatim>\<open>new\<close> and released with \<^verbatim>\<open>gdf_col_delete\<close>, outside the allocator's log, and the
  timing output under \<^verbatim>\<open>SNMG_PR_T\<close> is left out.
\<close>

definition thread_body ::
  "c_type \<Rightarrow> c_type \<Rightarrow> externals \<Rightarrow> gdf_column list \<Rightarrow> gdf_column list \<Rightarrow> nat \<Rightarrow> ValueType
     \<Rightarrow> int \<Rightarrow> nat \<Rightarrow> gdf_column \<Rightarrow> rmm \<Rightarrow> fault + gdf_error \<times> gdf_column \<times> rmm" where
  "thread_body idx_t val_t E src_col_ptrs dest_col_ptrs n_gpus damping_factor n_iter i pr_col m =
     (let p = n_gpus;
          part_offset = map (coo2csr_part_offset E) [0..<n_gpus + 1]
      in case rd dest_col_ptrs i of
           Inl f \<Rightarrow> Inl f
         | Inr dest_i \<Rightarrow>
            (case rd src_col_ptrs i of
               Inl f \<Rightarrow> Inl f
             | Inr src_i \<Rightarrow>
                (case gdf_snmg_coo2csr E i dest_i src_i of
                   (status_i, col_csr_off, col_csr_ind) \<Rightarrow>
                    (case SNMGpagerank_ctor val_t
                            \<lparr>get_thread_num = i, get_num_threads = p\<rparr>
                            part_offset col_csr_off col_csr_ind
                            (junk_alpha E) (junk_values E) m of
                       Inl f \<Rightarrow> Inl f
                     | Inr (pr_solver, m1) \<Rightarrow>
                        (case setup_pagerank idx_t (collective_ops E) (junk_indices E)
                                damping_factor pr_solver m1 of
                           (Some f, pr_solver1, m2) \<Rightarrow> Inl f
                         | (None, pr_solver1, m2) \<Rightarrow>
                            (let m3 = m2 @ [Alloc (Pagerank i) (sizeof val_t * part_offset ! p)];
                                 pagerank_i = alloc_cells (part_offset ! p) (junk_values E)
                             in case solve (collective_ops E) n_iter pr_solver1 pagerank_i of
                                  (Some f, pr_solver2, pr) \<Rightarrow> Inl f
                                | (None, pr_solver2, pr) \<Rightarrow>
                                   (let (pr_col1, m4) =
                                          (if i = 0
                                           then master_block val_t E (part_offset ! p) pr pr_col m3
                                           else (pr_col, m3));
                                        m5 = m4 @ [Free (Pagerank i)]
                                    in Inr (status_i, pr_col1,
                                            SNMGpagerank_dtor pr_solver2 m5))))))))"

text \<open>
  The parallel region. Its workers meet only in the collectives, whose results are
  parameters, and in the shared \<^verbatim>\<open>status\<close>, which a worker overwrites inside a
  critical section when its conversion failed. The model runs the workers one after the
  other in the order of their numbers, so the code that remains is the one of the last
  failing worker.
\<close>

fun parallel_region ::
  "c_type \<Rightarrow> c_type \<Rightarrow> externals \<Rightarrow> gdf_column list \<Rightarrow> gdf_column list \<Rightarrow> nat \<Rightarrow> ValueType
     \<Rightarrow> int \<Rightarrow> nat list \<Rightarrow> gdf_error \<times> gdf_column \<times> rmm
     \<Rightarrow> fault + gdf_error \<times> gdf_column \<times> rmm" where
  "parallel_region idx_t val_t E src dest n_gpus damping_factor n_iter [] st = Inr st"
| "parallel_region idx_t val_t E src dest n_gpus damping_factor n_iter (i # ws) (status, pr_col, m) =
     (case thread_body idx_t val_t E src dest n_gpus damping_factor n_iter i pr_col m of
        Inl f \<Rightarrow> Inl f
      | Inr (status_i, pr_col1, m1) \<Rightarrow>
         parallel_region idx_t val_t E src dest n_gpus damping_factor n_iter ws
           (if status_i \<noteq> GDF_SUCCESS then status_i else status, pr_col1, m1))"

definition gdf_snmg_pagerank_impl ::
  "c_type \<Rightarrow> c_type \<Rightarrow> externals \<Rightarrow> gdf_column list \<Rightarrow> gdf_column list \<Rightarrow> gdf_column \<Rightarrow> nat
     \<Rightarrow> ValueType \<Rightarrow> int \<Rightarrow> rmm \<Rightarrow> fault + gdf_error \<times> gdf_column \<times> rmm" where
  "gdf_snmg_pagerank_impl idx_t val_t E src_col_ptrs dest_col_ptrs pr_col n_gpus damping_factor
       n_iter m =
     parallel_region idx_t val_t E src_col_ptrs dest_col_ptrs n_gpus damping_factor n_iter
       [0..<n_gpus] (GDF_SUCCESS, pr_col, m)"

subsection \<open>The entry point gdf_snmg_pagerank\<close>

text \<open>
  Modelled from the spec: the macro \<^verbatim>\<open>GDF_REQUIRE(F, S)\<close> comes from the cudf headers,
  which are not among the sources; by the spec (7) a failed argument check is "returned
  immediately", so the macro returns \<open>S\<close> from the enclosing function when \<open>F\<close> is
  false. The function below is the loop over the devices.
\<close>

function check_columns ::
  "gdf_column list \<Rightarrow> gdf_column list \<Rightarrow> nat \<Rightarrow> nat \<Rightarrow> fault + gdf_error" where
  "check_columns src_col_ptrs dest_col_ptrs n_gpus i =
     (if i < n_gpus then
        (case rd src_col_ptrs i of
           Inl f \<Rightarrow> Inl f
         | Inr s \<Rightarrow>
            (case rd dest_col_ptrs i of
               Inl f \<Rightarrow> Inl f
             | Inr d \<Rightarrow>
                if size_col s \<noteq> size_col d then Inr GDF_COLUMN_SIZE_MISMATCH
                else if dtype s \<noteq> dtype d then Inr GDF_UNSUPPORTED_DTYPE
                else if null_count s \<noteq> 0 then Inr GDF_VALIDITY_UNSUPPORTED
                else if null_count d \<noteq> 0 then Inr GDF_VALIDITY_UNSUPPORTED
                else if dtype s \<noteq> GDF_INT32 then Inr GDF_UNSUPPORTED_DTYPE
                else if dtype d \<noteq> GDF_INT32 then Inr GDF_UNSUPPORTED_DTYPE
                else check_columns src_col_ptrs dest_col_ptrs n_gpus (Suc i)))
      else Inr GDF_SUCCESS)"
  by pat_completeness auto
termination
  by (relation "measure (\<lambda>(src, dest, n_gpus, i). n_gpus - i)") auto

declare check_columns.simps [simp del]

text \<open>
  The three pointer arguments are \<open>None\<close> for \<^verbatim>\<open>nullptr\<close>. The result is the returned
  code, the output column and the allocator's log. \<^verbatim>\<open>dev_count + 1\<close> is computed in
  \<^verbatim>\<open>int\<close> and converted to \<^verbatim>\<open>size_t\<close>.
\<close>

definition gdf_snmg_pagerank ::
  "externals \<Rightarrow> gdf_column list option \<Rightarrow> gdf_column list option \<Rightarrow> gdf_column option \<Rightarrow> nat
     \<Rightarrow> ValueType \<Rightarrow> int \<Rightarrow> rmm \<Rightarrow> fault + gdf_error \<times> gdf_column option \<times> rmm" where
  "gdf_snmg_pagerank E src_col_ptrs dest_col_ptrs pr_col n_gpus damping_factor n_iter m =
     (case src_col_ptrs of
        None \<Rightarrow> Inr (GDF_INVALID_API_CALL, pr_col, m)
      | Some src \<Rightarrow>
         (case dest_col_ptrs of
            None \<Rightarrow> Inr (GDF_INVALID_API_CALL, pr_col, m)
          | Some dest \<Rightarrow>
             (case pr_col of
                None \<Rightarrow> Inr (GDF_INVALID_API_CALL, pr_col, m)
              | Some col \<Rightarrow>
                 if \<not> fless zero damping_factor then Inr (GDF_INVALID_API_CALL, pr_col, m)
                 else if \<not> fless damping_factor one then Inr (GDF_INVALID_API_CALL, pr_col, m)
                 else if \<not> 0 < n_iter then Inr (GDF_INVALID_API_CALL, pr_col, m)
                 else if \<not> 0 < n_gpus then Inr (GDF_INVALID_API_CALL, pr_col, m)
                 else if \<not> n_gpus < size_t_of_int (cudaGetDeviceCount E + 1)
                   then Inr (GDF_INVALID_API_CALL, pr_col, m)
                 else
                   (case check_columns src dest n_gpus 0 of
                      Inl f \<Rightarrow> Inl f
                    | Inr GDF_SUCCESS \<Rightarrow>
                       (case gdf_snmg_pagerank_impl c_int c_float E src dest col n_gpus
                               damping_factor n_iter m of
                          Inl f \<Rightarrow> Inl f
                        | Inr (status, col1, m1) \<Rightarrow> Inr (status, Some col1, m1))
                    | Inr e \<Rightarrow> Inr (e, pr_col, m)))))"

subsection \<open>The solve of the specification\<close>

text \<open>
  The iteration as the specification words it (4.4): the product by SpMV in place, the
  scaling by \<open>alpha\<close>, the addition of \<open>dotRes / totalVertices\<close> to every entry, the new
  \<open>dotRes\<close> and the division by the L2 norm; then the run: the uniform vector, the first
  \<open>dotRes\<close>, \<open>k\<close> iterations and the division by the L1 norm.
\<close>

definition spec_iteration ::
  "collectives \<Rightarrow> SNMGpagerank \<Rightarrow> ValueType list \<times> ValueType \<Rightarrow> ValueType list \<times> ValueType" where
  "spec_iteration X s st =
     (let v = fst st; dotRes = snd st;
          v1 = map (spmv_run X (id_thr s) (part_off s) (off s) (ind s) (val s) v) [0..<length v];
          v2 = scal (v_glob s) (alpha s) v1;
          v3 = addv (v_glob s) (fdiv dotRes (of_size_t (v_glob s))) v2;
          dotRes' = dot (v_glob s) (bookmark s) v3;
          v4 = scal (v_glob s) (fdiv one (nrm2 (v_glob s) v3)) v3
      in (v4, dotRes'))"

definition spec_solve ::
  "collectives \<Rightarrow> nat \<Rightarrow> SNMGpagerank \<Rightarrow> ValueType list \<Rightarrow> ValueType list" where
  "spec_solve X k s pagerank =
     (let v0 = fill (v_glob s) pagerank (fdiv one (of_size_t (v_glob s)));
          d0 = dot (v_glob s) (bookmark s) v0;
          v = fst ((spec_iteration X s ^^ k) (v0, d0))
      in scal (v_glob s) (fdiv one (nrm1 (v_glob s) v)) v)"

subsection \<open>The argument checks of the specification\<close>

text \<open>
  The preconditions of the specification (6) on the scalar arguments and on one pair of
  columns, and the code each violated check of a pair answers with, in the order of the
  source.
\<close>

definition scalars_ok :: "externals \<Rightarrow> nat \<Rightarrow> ValueType \<Rightarrow> int \<Rightarrow> bool" where
  "scalars_ok E n_gpus damping_factor n_iter \<longleftrightarrow>
     fless zero damping_factor \<and> fless damping_factor one \<and> 0 < n_iter \<and>
     0 < n_gpus \<and> int n_gpus \<le> cudaGetDeviceCount E"

definition pair_status :: "gdf_column \<Rightarrow> gdf_column \<Rightarrow> gdf_error" where
  "pair_status s d =
     (if size_col s \<noteq> size_col d then GDF_COLUMN_SIZE_MISMATCH
      else if dtype s \<noteq> dtype d then GDF_UNSUPPORTED_DTYPE
      else if null_count s \<noteq> 0 \<or> null_count d \<noteq> 0 then GDF_VALIDITY_UNSUPPORTED
      else if dtype s \<noteq> GDF_INT32 \<or> dtype d \<noteq> GDF_INT32 then GDF_UNSUPPORTED_DTYPE
      else GDF_SUCCESS)"

fun first_failure :: "(gdf_column \<times> gdf_column) list \<Rightarrow> gdf_error" where
  "first_failure [] = GDF_SUCCESS"
| "first_failure ((s, d) # ps) =
     (if pair_status s d \<noteq> GDF_SUCCESS then pair_status s d else first_failure ps)"

text \<open>
  The three kinds of violation the specification (6) names for the column pairs of the
  first \<open>n\<close> devices: a pair of unequal lengths, a pair of unequal or non-32-bit-integer
  element types, a column that carries null markers.
\<close>

definition length_mismatch :: "gdf_column list \<Rightarrow> gdf_column list \<Rightarrow> nat \<Rightarrow> bool" where
  "length_mismatch src dest n \<longleftrightarrow> (\<exists>i<n. size_col (src ! i) \<noteq> size_col (dest ! i))"

definition dtype_unsupported :: "gdf_column list \<Rightarrow> gdf_column list \<Rightarrow> nat \<Rightarrow> bool" where
  "dtype_unsupported src dest n \<longleftrightarrow>
     (\<exists>i<n. dtype (src ! i) \<noteq> dtype (dest ! i) \<or> dtype (src ! i) \<noteq> GDF_INT32 \<or>
            dtype (dest ! i) \<noteq> GDF_INT32)"

definition nulls_present :: "gdf_column list \<Rightarrow> gdf_column list \<Rightarrow> nat \<Rightarrow> bool" where
  "nulls_present src dest n \<longleftrightarrow>
     (\<exists>i<n. null_count (src ! i) \<noteq> 0 \<or> null_count (dest ! i) \<noteq> 0)"

subsection \<open>A graph on one device\<close>

text \<open>
  Modelled from the spec: on one device the collectives are local. The degree of a
  vertex is the number of edges that carry it as column index (4.2), and a row of the
  product is the sum over the row's edges of the transition value times the entry of
  the source vector at the edge's column (4.3). They serve as the concrete collaborators
  of the examples below.
\<close>

definition degree_1gpu ::
  "int \<Rightarrow> nat \<Rightarrow> nat list \<Rightarrow> int list \<Rightarrow> int list \<Rightarrow> int list \<Rightarrow> bool \<times> (nat \<Rightarrow> int)" where
  "degree_1gpu x i po offs cols buf = (False, \<lambda>v. int (count_list cols (int v)))"

definition spmv_1gpu ::
  "nat \<Rightarrow> nat list \<Rightarrow> int list \<Rightarrow> int list \<Rightarrow> ValueType list \<Rightarrow> ValueType list \<Rightarrow> nat \<Rightarrow> ValueType" where
  "spmv_1gpu i po offs cols vals x r =
     foldl fadd zero
       (map (\<lambda>k. fmul (vals ! k) (x ! nat (cols ! k))) [nat (offs ! r)..<nat (offs ! Suc r)])"

definition collectives_1gpu :: collectives where
  "collectives_1gpu = \<lparr>snmg_degree = degree_1gpu, spmv_run = spmv_1gpu\<rparr>"

text \<open>
  The graph of the specification's example (8): three vertices, the edges \<open>0 \<rightarrow> 1\<close> and
  \<open>0 \<rightarrow> 2\<close>. In the transposed layout row 1 and row 2 hold the column index 0.
\<close>

definition env_1gpu :: SNMGinfo where
  "env_1gpu = \<lparr>get_thread_num = 0, get_num_threads = 1\<rparr>"

definition fan_part_off :: "nat list" where "fan_part_off = [0, 3]"
definition fan_off :: "int list" where "fan_off = [0, 0, 1, 2]"
definition fan_ind :: "int list" where "fan_ind = [0, 0]"

definition fan_solver :: SNMGpagerank where
  "fan_solver =
     \<lparr>id_thr = 0, nt = 1, part_off = fan_part_off, off = fan_off, ind = fan_ind,
      v_glob = 3, v_loc = 3, e_loc = 2, alpha = Fin 7, is_setup = False,
      bookmark = [Fin 0, Fin 1, Fin 2], val = [Fin 0, Fin 1]\<rparr>"

definition fan_ready :: SNMGpagerank where
  "fan_ready =
     fan_solver\<lparr>alpha := Fin (17 / 20), is_setup := True,
                bookmark := [Fin 0, Fin (17 / 20), Fin (17 / 20)],
                val := [Fin (1 / 2), Fin (1 / 2)]\<rparr>"

text \<open>
  The edge list of the same graph as the two input columns of one device, and the
  collaborators of a run on one device: a conversion that succeeds, and one that
  reports a failure and leaves the same arrays.
\<close>

definition fan_src :: gdf_column where
  "fan_src = \<lparr>data = IndexData [0, 0], size_col = 2, dtype = GDF_INT32, null_count = 0\<rparr>"

definition fan_dest :: gdf_column where
  "fan_dest = \<lparr>data = IndexData [1, 2], size_col = 2, dtype = GDF_INT32, null_count = 0\<rparr>"

definition empty_col :: gdf_column where
  "empty_col = \<lparr>data = NullData, size_col = 0, dtype = GDF_invalid, null_count = 0\<rparr>"

definition coo2csr_fan :: "gdf_error \<Rightarrow> nat \<Rightarrow> gdf_column \<Rightarrow> gdf_column \<Rightarrow> gdf_error \<times> int list \<times> int list" where
  "coo2csr_fan code i rows cols = (code, fan_off, fan_ind)"

definition fan_part_offset :: "nat \<Rightarrow> nat" where
  "fan_part_offset k = (if k = 0 then 0 else 3)"

definition set_defaults :: "gdf_column \<Rightarrow> gdf_column" where
  "set_defaults c = empty_col"

definition externals_fan :: "gdf_error \<Rightarrow> externals" where
  "externals_fan code =
     \<lparr>cudaGetDeviceCount = 1, gdf_snmg_coo2csr = coo2csr_fan code,
      coo2csr_part_offset = fan_part_offset, collective_ops = collectives_1gpu,
      gdf_col_set_defaults = set_defaults, junk_alpha = Fin 7,
      junk_values = of_size_t, junk_indices = int\<rparr>"

section \<open>Properties\<close>

subsection \<open>Arithmetic and the primitives\<close>

lemma fmul_reciprocal: "fmul d (fdiv one (of_size_t n)) = fdiv d (of_size_t n)"
  by (cases d) (simp_all add: of_size_t_def)

lemma fdiv_one_of_index:
  "fdiv one (of_index d) = (if d = 0 then PInf else Fin (1 / real_of_int d))"
  by (simp add: of_index_def)

lemma length_fill [simp]: "length (fill n x v) = length x"
  by (simp add: fill_def)

lemma length_scal [simp]: "length (scal n a x) = length x"
  by (simp add: scal_def)

lemma length_addv [simp]: "length (addv n a x) = length x"
  by (simp add: addv_def)

lemma length_flag_leafs_kernel [simp]: "length (flag_leafs_kernel n deg b) = length b"
  by (simp add: flag_leafs_kernel_def)

lemma length_update_dangling_nodes [simp]: "length (update_dangling_nodes n b a) = length b"
  by (simp add: update_dangling_nodes_def)

lemma length_alloc_cells [simp]: "length (alloc_cells n junk) = n"
  by (simp add: alloc_cells_def)

lemma nth_fill: "k < n \<Longrightarrow> k < length x \<Longrightarrow> fill n x v ! k = v"
  by (simp add: fill_def nth_append)

lemma nth_update_dangling_nodes:
  "k < n \<Longrightarrow> k < length b \<Longrightarrow>
   update_dangling_nodes n b a ! k = (if b ! k = one then a else b ! k)"
  by (simp add: update_dangling_nodes_def nth_append)

lemma nth_flag_leafs_kernel:
  "k < length b \<Longrightarrow>
   flag_leafs_kernel n deg b ! k =
     (if k < n \<and> k < length deg \<and> deg ! k = 0 then one else b ! k)"
  by (simp add: flag_leafs_kernel_def)

subsection \<open>The loop of solve\<close>

lemma solve_iteration_spec: "solve_iteration X s st = spec_iteration X s st"
  by (cases st) (simp add: solve_iteration_def spec_iteration_def Let_def fmul_reciprocal)

lemma solve_loop_funpow:
  "solve_loop X s max_iter i st = (spec_iteration X s ^^ nat (max_iter - i)) st"
proof (induction X s max_iter i st rule: solve_loop.induct)
  case (1 X s max_iter i st)
  show ?case
  proof (cases "i < max_iter")
    case True
    have k: "nat (max_iter - i) = Suc (nat (max_iter - (i + 1)))"
      using True by simp
    have "solve_loop X s max_iter i st = solve_loop X s max_iter (i + 1) (solve_iteration X s st)"
      using True by (subst solve_loop.simps) simp
    also have "\<dots> = (spec_iteration X s ^^ nat (max_iter - (i + 1))) (solve_iteration X s st)"
      by (rule 1[OF True])
    also have "\<dots> = (spec_iteration X s ^^ nat (max_iter - i)) st"
      by (simp only: k funpow_Suc_right o_apply solve_iteration_spec)
    finally show ?thesis .
  next
    case False
    then show ?thesis by (subst solve_loop.simps) simp
  qed
qed

lemma length_spec_iteration: "length (fst (spec_iteration X s st)) = length (fst st)"
  by (simp add: spec_iteration_def Let_def)

lemma length_spec_iterations: "length (fst ((spec_iteration X s ^^ k) st)) = length (fst st)"
  by (induction k) (simp_all add: length_spec_iteration)

lemma length_spec_solve [simp]: "length (spec_solve X k s pagerank) = length pagerank"
  by (simp add: spec_solve_def Let_def length_spec_iterations)

lemma solve_eq:
  "solve X max_iter s pagerank =
     (if is_setup s then (None, s, spec_solve X (nat max_iter) s pagerank)
      else (Some (Exception ''Solve was called before setup''), s, pagerank))"
  by (simp add: solve_def spec_solve_def Let_def solve_loop_funpow split: prod.splits)

text \<open>
  C1. Every call of \<open>solve\<close> on a set-up solver fills the vector with
  \<open>1 / totalVertices\<close>, takes \<open>dotRes = dot(bookmark, vector)\<close>, runs the loop body (SpMV
  in place, scaling by \<open>alpha\<close>, addition of \<open>dotRes / totalVertices\<close>, new \<open>dotRes\<close>,
  division by the L2 norm) exactly \<open>max_iter\<close> times, none for a \<open>max_iter\<close> below one,
  whatever the values are, and divides once by the L1 norm: the source's loop computes
  the run of the specification.
\<close>

theorem solve_runs_fixed_iterations:
  "is_setup s \<Longrightarrow>
   solve X max_iter s pagerank = (None, s, spec_solve X (nat max_iter) s pagerank)"
  by (simp add: solve_def spec_solve_def Let_def solve_loop_funpow split: prod.splits)

theorem solve_runs_fixed_iterations_witness:
  "is_setup fan_ready \<and>
   solve collectives_1gpu 2 fan_ready [Fin 5, Fin 6, Fin 7] =
     (None, fan_ready, spec_solve collectives_1gpu (nat 2) fan_ready [Fin 5, Fin 6, Fin 7])"
proof -
  have h: "is_setup fan_ready"
    by (simp add: fan_ready_def fan_solver_def)
  show ?thesis
    using h solve_runs_fixed_iterations [OF h, of collectives_1gpu 2 "[Fin 5, Fin 6, Fin 7]"]
    by simp
qed

subsection \<open>The transition kernel\<close>

lemma transition_kernel_Inr:
  "transition_kernel e cols deg vs i = Inr vs' \<Longrightarrow>
     length vs' = length vs \<and>
     (\<forall>k<length vs. vs' ! k =
        (if i \<le> k \<and> k < e then fdiv one (of_index (deg ! nat (cols ! k))) else vs ! k)) \<and>
     (\<forall>k. i \<le> k \<and> k < e \<longrightarrow>
        k < length vs \<and> k < length cols \<and> 0 \<le> cols ! k \<and> nat (cols ! k) < length deg)"
proof (induction e cols deg vs i arbitrary: vs' rule: transition_kernel.induct)
  case (1 e cols deg vs i)
  show ?case
  proof (cases "i < e")
    case False
    with "1.prems" have "vs' = vs"
      by (subst (asm) transition_kernel.simps) simp
    with False show ?thesis by auto
  next
    case True
    from "1.prems" True obtain j d where
      j: "rd cols i = Inr j" and d: "rd_idx deg j = Inr d" and len: "i < length vs" and
      rec: "transition_kernel e cols deg (vs[i := fdiv one (of_index d)]) (Suc i) = Inr vs'"
      by (subst (asm) transition_kernel.simps) (auto split: sum.splits if_splits)
    note ih = "1.IH"[OF True j d len rec]
    from j have ji: "i < length cols" "j = cols ! i"
      by (auto simp: rd_def split: if_splits)
    from d have dj: "0 \<le> j" "nat j < length deg" "d = deg ! nat j"
      by (auto simp: rd_idx_def split: if_splits)
    have "length vs' = length vs" using ih by simp
    moreover have "\<forall>k<length vs. vs' ! k =
        (if i \<le> k \<and> k < e then fdiv one (of_index (deg ! nat (cols ! k))) else vs ! k)"
    proof (intro allI impI)
      fix k assume k: "k < length vs"
      show "vs' ! k =
        (if i \<le> k \<and> k < e then fdiv one (of_index (deg ! nat (cols ! k))) else vs ! k)"
      proof (cases "k = i")
        case True
        with ih k \<open>i < e\<close> ji dj show ?thesis by simp
      next
        case False
        with ih k show ?thesis by auto
      qed
    qed
    moreover have "\<forall>k. i \<le> k \<and> k < e \<longrightarrow>
        k < length vs \<and> k < length cols \<and> 0 \<le> cols ! k \<and> nat (cols ! k) < length deg"
    proof (intro allI impI)
      fix k assume k: "i \<le> k \<and> k < e"
      show "k < length vs \<and> k < length cols \<and> 0 \<le> cols ! k \<and> nat (cols ! k) < length deg"
      proof (cases "k = i")
        case True
        with len ji dj show ?thesis by simp
      next
        case False
        with k have "Suc i \<le> k \<and> k < e" by simp
        with ih show ?thesis by simp
      qed
    qed
    ultimately show ?thesis by blast
  qed
qed

lemma transition_kernel_total:
  "(\<forall>k. i \<le> k \<and> k < e \<longrightarrow>
        k < length vs \<and> k < length cols \<and> 0 \<le> cols ! k \<and> nat (cols ! k) < length deg)
   \<Longrightarrow> \<exists>vs'. transition_kernel e cols deg vs i = Inr vs'"
proof (induction e cols deg vs i rule: transition_kernel.induct)
  case (1 e cols deg vs i)
  show ?case
  proof (cases "i < e")
    case False
    then show ?thesis by (subst transition_kernel.simps) simp
  next
    case True
    with "1.prems" have ok: "i < length vs" "i < length cols" "0 \<le> cols ! i"
      "nat (cols ! i) < length deg"
      by auto
    have j: "rd cols i = Inr (cols ! i)" using ok by (simp add: rd_def)
    have d: "rd_idx deg (cols ! i) = Inr (deg ! nat (cols ! i))"
      using ok by (simp add: rd_idx_def)
    have "\<exists>vs'. transition_kernel e cols deg
            (vs[i := fdiv one (of_index (deg ! nat (cols ! i)))]) (Suc i) = Inr vs'"
      using "1.prems" by (intro "1.IH"[OF True j d ok(1)]) auto
    then show ?thesis
      using True ok j d by (subst transition_kernel.simps) simp
  qed
qed

lemma transition_vals_Inr:
  assumes "transition_vals s deg = Inr s'"
  shows "s' = s\<lparr>val := val s'\<rparr>"
    and "length (val s') = length (val s)"
    and "\<forall>k<e_loc s. k < length (val s) \<and> k < length (ind s) \<and> 0 \<le> ind s ! k \<and>
           nat (ind s ! k) < length deg \<and>
           val s' ! k = fdiv one (of_index (deg ! nat (ind s ! k)))"
proof -
  from assms obtain v where
    v: "transition_kernel (e_loc s) (ind s) deg (val s) 0 = Inr v" and s': "s' = s\<lparr>val := v\<rparr>"
    by (auto simp: transition_vals_def split: sum.splits)
  note kr = transition_kernel_Inr[OF v]
  show "s' = s\<lparr>val := val s'\<rparr>" using s' by simp
  show "length (val s') = length (val s)" using s' kr by simp
  show "\<forall>k<e_loc s. k < length (val s) \<and> k < length (ind s) \<and> 0 \<le> ind s ! k \<and>
           nat (ind s ! k) < length deg \<and>
           val s' ! k = fdiv one (of_index (deg ! nat (ind s ! k)))"
    using s' kr by auto
qed

subsection \<open>The constructor and setup\<close>

lemma ctor_Inr:
  assumes "SNMGpagerank_ctor val_t env po offs cols a0 junk m = Inr (s, m')"
  shows "\<not> is_setup s"
    and "id_thr s = get_thread_num env"
    and "length (bookmark s) = v_glob s"
    and "length (val s) = e_loc s"
    and "rd po (get_num_threads env) = Inr (v_glob s)"
    and "m' = m @ [Alloc (Bookmark (id_thr s)) (sizeof val_t * v_glob s),
                   Alloc (Val (id_thr s)) (sizeof val_t * e_loc s)]"
  using assms
  by (auto simp: SNMGpagerank_ctor_def Let_def split: sum.splits)

lemma degree_loc_alpha [simp]: "degree_loc X junk (s\<lparr>alpha := a\<rparr>) = degree_loc X junk s"
  by (simp add: degree_loc_def)

lemma length_degree_loc [simp]: "length (degree_loc X junk s) = v_glob s"
  by (simp add: degree_loc_def)

lemma setup_success:
  assumes "setup_pagerank idx_t X junk a s m = (None, s', m')"
  shows "\<not> is_setup s"
    and "\<exists>s4. transition_vals s4 (degree_loc X junk s) = Inr (s'\<lparr>is_setup := False\<rparr>) \<and>
           s4 = s\<lparr>alpha := a,
                  bookmark := update_dangling_nodes (v_glob s)
                    (flag_leafs_kernel (v_glob s) (degree_loc X junk s)
                       (fill (v_glob s) (bookmark s) zero)) a\<rparr>"
    and "is_setup s'"
proof -
  show ns: "\<not> is_setup s"
    using assms by (auto simp: setup_pagerank_def)
  let ?s4 = "s\<lparr>alpha := a,
                  bookmark := update_dangling_nodes (v_glob s)
                    (flag_leafs_kernel (v_glob s) (degree_loc X junk s)
                       (fill (v_glob s) (bookmark s) zero)) a\<rparr>"
  from assms ns obtain s5 where
    tv: "transition_vals ?s4 (degree_loc X junk s) = Inr s5" and s': "s' = s5\<lparr>is_setup := True\<rparr>"
    by (auto simp: setup_pagerank_def Let_def flag_leafs_def split: if_splits sum.splits)
  from transition_vals_Inr(1)[OF tv] ns have "is_setup s5 = False"
    by (metis (no_types, lifting) SNMGpagerank.select_convs(10) SNMGpagerank.surjective
        SNMGpagerank.update_convs(9,11,12))
  then have "s'\<lparr>is_setup := False\<rparr> = s5" using s' by simp
  with tv show "\<exists>s4. transition_vals s4 (degree_loc X junk s) = Inr (s'\<lparr>is_setup := False\<rparr>) \<and>
           s4 = ?s4" by simp
  show "is_setup s'" using s' by simp
qed
lemma held_append: "set (held es) \<subseteq> set (held (m @ es))"
proof (induction m)
  case Nil
  show ?case by simp
next
  case (Cons ev m)
  then show ?case by (cases ev) auto
qed

subsection \<open>Evaluation on the example graph\<close>

lemma ctor_fan_any:
  "SNMGpagerank_ctor val_t env_1gpu fan_part_off fan_off fan_ind (Fin 7) of_size_t m =
     Inr (fan_solver, m @ [Alloc (Bookmark 0) (sizeof val_t * 3), Alloc (Val 0) (sizeof val_t * 2)])"
  by (simp add: SNMGpagerank_ctor_def env_1gpu_def fan_part_off_def fan_off_def fan_ind_def
      fan_solver_def rd_def size_t_sub_def size_t_of_int_def alloc_cells_def of_size_t_def
      upt_rec)

lemma ctor_fan:
  "SNMGpagerank_ctor c_float env_1gpu fan_part_off fan_off fan_ind (Fin 7) of_size_t [] =
     Inr (fan_solver, [Alloc (Bookmark 0) 12, Alloc (Val 0) 8])"
  using ctor_fan_any [of c_float "[]"] by simp

lemma degree_loc_fan: "degree_loc collectives_1gpu int fan_solver = [2, 0, 0]"
  by (simp add: degree_loc_def collectives_1gpu_def degree_1gpu_def fan_solver_def
      fan_ind_def upt_rec)

lemma kernel_fan:
  "transition_kernel 2 [0, 0] [2, 0, 0] [Fin 0, Fin 1] 0 = Inr [Fin (1 / 2), Fin (1 / 2)]"
  by (simp add: transition_kernel.simps rd_def rd_idx_def of_index_def)

lemma setup_fan_log:
  "setup_pagerank c_int collectives_1gpu int (Fin (17 / 20)) fan_solver m =
     (None, fan_ready, m @ [Alloc (DegreeLoc 0) 12, Free (DegreeLoc 0)])"
proof -
  have nf: "\<not> degree_failed collectives_1gpu int (fan_solver\<lparr>alpha := Fin (17 / 20)\<rparr>)"
    by (simp add: degree_failed_def collectives_1gpu_def degree_1gpu_def)
  have bm: "update_dangling_nodes 3 (flag_leafs_kernel 3 [2, 0, 0]
              (fill 3 [Fin 0, Fin 1, Fin 2] zero)) (Fin (17 / 20)) =
            [Fin 0, Fin (17 / 20), Fin (17 / 20)]"
    by (simp add: update_dangling_nodes_def flag_leafs_kernel_def fill_def upt_rec)
  show ?thesis
    using nf
    by (simp add: setup_pagerank_def Let_def flag_leafs_def transition_vals_def
        degree_loc_def collectives_1gpu_def degree_1gpu_def upt_rec alloc_cells_def
        fan_solver_def fan_ready_def fan_ind_def bm kernel_fan)
qed

lemma setup_fan:
  "setup_pagerank c_int collectives_1gpu int (Fin (17 / 20)) fan_solver [] =
     (None, fan_ready, [Alloc (DegreeLoc 0) 12, Free (DegreeLoc 0)])"
  using setup_fan_log [of "[]"] by simp
subsection \<open>The claims on the solver\<close>

text \<open>
  C2. After a successful \<open>setup\<close> on a solver whose bookmark buffer has its \<open>v_glob\<close>
  cells (as the constructor leaves it), the transition value at every local edge
  position \<open>i\<close> is \<open>1 / degree[ind[i]]\<close>, and the bookmark entry of every global vertex
  \<open>v\<close> is \<open>alpha\<close> if \<open>degree[v] = 0\<close> and \<open>0\<close> otherwise; \<open>degree\<close> is the vector that
  \<open>snmg_degree\<close> delivered to this call.
\<close>

theorem setup_builds_transition_and_bookmark:
  assumes "length (bookmark s) = v_glob s"
    and "setup_pagerank idx_t X junk a s m = (None, s', m')"
  shows "(\<forall>i<e_loc s. val s' ! i = fdiv one (of_index (degree_loc X junk s ! nat (ind s ! i)))) \<and>
         (\<forall>v<v_glob s. bookmark s' ! v = (if degree_loc X junk s ! v = 0 then a else zero))"
proof -
  let ?deg = "degree_loc X junk s"
  let ?s4 = "s\<lparr>alpha := a,
                bookmark := update_dangling_nodes (v_glob s)
                  (flag_leafs_kernel (v_glob s) ?deg (fill (v_glob s) (bookmark s) zero)) a\<rparr>"
  let ?s5 = "s'\<lparr>is_setup := False\<rparr>"
  from setup_success(2)[OF assms(2)]
  have tv: "transition_vals ?s4 ?deg = Inr ?s5" by simp
  have vals: "\<forall>i<e_loc s. val s' ! i = fdiv one (of_index (?deg ! nat (ind s ! i)))"
    using transition_vals_Inr(3)[OF tv] by simp
  have "?s5 = ?s4\<lparr>val := val ?s5\<rparr>"
    by (rule transition_vals_Inr(1)[OF tv])
  then have "bookmark ?s5 = bookmark (?s4\<lparr>val := val ?s5\<rparr>)"
    by (rule arg_cong)
  then have bm: "bookmark s' = update_dangling_nodes (v_glob s)
                  (flag_leafs_kernel (v_glob s) ?deg (fill (v_glob s) (bookmark s) zero)) a"
    by simp
  have "\<forall>v<v_glob s. bookmark s' ! v = (if ?deg ! v = 0 then a else zero)"
    using assms(1)
    by (simp add: bm nth_update_dangling_nodes nth_flag_leafs_kernel nth_fill)
  with vals show ?thesis by simp
qed

theorem setup_builds_transition_and_bookmark_witness:
  "length (bookmark fan_solver) = v_glob fan_solver \<and>
   setup_pagerank c_int collectives_1gpu int (Fin (17 / 20)) fan_solver [] =
     (None, fan_ready, [Alloc (DegreeLoc 0) 12, Free (DegreeLoc 0)]) \<and>
   val fan_ready ! 1 = Fin (1 / 2) \<and> bookmark fan_ready ! 0 = zero \<and>
   bookmark fan_ready ! 2 = Fin (17 / 20)"
proof -
  have len: "length (bookmark fan_solver) = v_glob fan_solver"
    by (simp add: fan_solver_def)
  note inst = setup_builds_transition_and_bookmark [OF len setup_fan]
  have e: "(1::nat) < e_loc fan_solver" and v: "(0::nat) < v_glob fan_solver"
    "(2::nat) < v_glob fan_solver"
    by (simp_all add: fan_solver_def)
  from inst e have "val fan_ready ! 1 =
      fdiv one (of_index (degree_loc collectives_1gpu int fan_solver ! nat (ind fan_solver ! 1)))"
    by blast
  moreover have "ind fan_solver ! 1 = 0"
    by (simp add: fan_solver_def fan_ind_def)
  ultimately have v1: "val fan_ready ! 1 = Fin (1 / 2)"
    by (simp add: degree_loc_fan of_index_def)
  from inst v have "bookmark fan_ready ! 0 =
      (if degree_loc collectives_1gpu int fan_solver ! 0 = 0 then Fin (17 / 20) else zero)"
    and "bookmark fan_ready ! 2 =
      (if degree_loc collectives_1gpu int fan_solver ! 2 = 0 then Fin (17 / 20) else zero)"
    by blast+
  then have b: "bookmark fan_ready ! 0 = zero" "bookmark fan_ready ! 2 = Fin (17 / 20)"
    by (simp_all add: degree_loc_fan)
  from len setup_fan v1 b show ?thesis by simp
qed

text \<open>
  C9. The kernel divides by \<open>degree[ind[i]]\<close> without a test. When every column index
  of the shard has an entry in the degree vector and that entry is strictly positive
  (and the index array and the value buffer have their \<open>e_loc\<close> cells),
  \<open>transition_vals\<close> completes and at every edge position the divisor is not zero and
  the quotient is the number \<open>1 / degree[ind[i]]\<close>, not an infinity or NaN.
\<close>

theorem transition_division_defined:
  assumes "e_loc s \<le> length (val s)" and "e_loc s \<le> length (ind s)"
    and "\<forall>k<e_loc s. 0 \<le> ind s ! k \<and> nat (ind s ! k) < length deg \<and> 0 < deg ! nat (ind s ! k)"
  shows "\<exists>s'. transition_vals s deg = Inr s' \<and>
           (\<forall>k<e_loc s. of_index (deg ! nat (ind s ! k)) \<noteq> zero \<and>
                         val s' ! k = Fin (1 / real_of_int (deg ! nat (ind s ! k))))"
proof -
  have "\<forall>k. 0 \<le> k \<and> k < e_loc s \<longrightarrow>
          k < length (val s) \<and> k < length (ind s) \<and> 0 \<le> ind s ! k \<and>
          nat (ind s ! k) < length deg"
    using assms by auto
  from transition_kernel_total[OF this] obtain v where
    v: "transition_kernel (e_loc s) (ind s) deg (val s) 0 = Inr v" by blast
  then have tv: "transition_vals s deg = Inr (s\<lparr>val := v\<rparr>)"
    by (simp add: transition_vals_def)
  have "\<forall>k<e_loc s. of_index (deg ! nat (ind s ! k)) \<noteq> zero \<and>
          val (s\<lparr>val := v\<rparr>) ! k = Fin (1 / real_of_int (deg ! nat (ind s ! k)))"
  proof (intro allI impI)
    fix k assume k: "k < e_loc s"
    with assms(3) have pos: "0 < deg ! nat (ind s ! k)" by simp
    from transition_vals_Inr(3)[OF tv] k
    have "val (s\<lparr>val := v\<rparr>) ! k = fdiv one (of_index (deg ! nat (ind s ! k)))" by simp
    with pos show "of_index (deg ! nat (ind s ! k)) \<noteq> zero \<and>
          val (s\<lparr>val := v\<rparr>) ! k = Fin (1 / real_of_int (deg ! nat (ind s ! k)))"
      by (simp add: of_index_def)
  qed
  with tv show ?thesis by blast
qed

theorem transition_division_defined_witness:
  "e_loc fan_solver \<le> length (val fan_solver) \<and> e_loc fan_solver \<le> length (ind fan_solver) \<and>
   e_loc fan_solver = 2 \<and> ind fan_solver = [0, 0] \<and>
   (\<exists>s'. transition_vals fan_solver [2, 0, 0] = Inr s' \<and>
      of_index ([2, 0, 0] ! nat (ind fan_solver ! 0)) \<noteq> zero \<and>
      val s' ! 0 = Fin (1 / real_of_int ([2, 0, 0] ! nat (ind fan_solver ! 0))) \<and>
      of_index ([2, 0, 0] ! nat (ind fan_solver ! 1)) \<noteq> zero \<and>
      val s' ! 1 = Fin (1 / real_of_int ([2, 0, 0] ! nat (ind fan_solver ! 1))))"
proof -
  have a: "e_loc fan_solver \<le> length (val fan_solver)"
    and b: "e_loc fan_solver \<le> length (ind fan_solver)"
    and e: "e_loc fan_solver = 2" and i: "ind fan_solver = [0, 0]"
    by (simp_all add: fan_solver_def fan_ind_def)
  have c: "\<forall>k<e_loc fan_solver. 0 \<le> ind fan_solver ! k \<and>
        nat (ind fan_solver ! k) < length [2, 0, 0 :: int] \<and>
        0 < [2, 0, 0 :: int] ! nat (ind fan_solver ! k)"
    by (simp add: e i less_Suc_eq numeral_2_eq_2)
  from transition_division_defined [OF a b c] obtain s' where
    s': "transition_vals fan_solver [2, 0, 0] = Inr s'" and
    all: "\<forall>k<e_loc fan_solver. of_index ([2, 0, 0] ! nat (ind fan_solver ! k)) \<noteq> zero \<and>
           val s' ! k = Fin (1 / real_of_int ([2, 0, 0] ! nat (ind fan_solver ! k)))"
    by blast
  have "(0::nat) < e_loc fan_solver" "(1::nat) < e_loc fan_solver"
    by (simp_all add: e)
  with all have
    "of_index ([2, 0, 0] ! nat (ind fan_solver ! 0)) \<noteq> zero \<and>
      val s' ! 0 = Fin (1 / real_of_int ([2, 0, 0] ! nat (ind fan_solver ! 0)))"
    "of_index ([2, 0, 0] ! nat (ind fan_solver ! 1)) \<noteq> zero \<and>
      val s' ! 1 = Fin (1 / real_of_int ([2, 0, 0] ! nat (ind fan_solver ! 1)))"
    by blast+
  with a b e i s' show ?thesis by blast
qed

text \<open>Without the precondition the division happens all the same: a degree of zero gives
  an infinity.\<close>

lemma transition_kernel_zero_degree:
  "transition_kernel 1 [0] [0] [zero] 0 = Inr [PInf]"
  by (simp add: transition_kernel.simps rd_def rd_idx_def of_index_def)

text \<open>
  C5. \<open>setup\<close> succeeds at most once: after a call that succeeded the solver is set up,
  and every further call, with whatever arguments, throws "Setup can be called only
  once" and returns the solver (transition values, bookmark, \<open>alpha\<close>, \<open>is_setup\<close> and
  all) and the allocator's log as they were.
\<close>

theorem setup_only_once:
  assumes "setup_pagerank idx_t X junk a s m = (None, s1, m1)"
  shows "is_setup s1 \<and>
         setup_pagerank idx_t2 X2 junk2 a2 s1 m2 =
           (Some (Exception ''Setup can be called only once''), s1, m2)"
  using setup_success(3)[OF assms] by (simp add: setup_pagerank_def)

theorem setup_only_once_witness:
  "setup_pagerank c_int collectives_1gpu int (Fin (17 / 20)) fan_solver [] =
     (None, fan_ready, [Alloc (DegreeLoc 0) 12, Free (DegreeLoc 0)]) \<and>
   is_setup fan_ready \<and>
   setup_pagerank c_int collectives_1gpu int (Fin (1 / 2)) fan_ready [] =
     (Some (Exception ''Setup can be called only once''), fan_ready, [])"
  using setup_fan setup_only_once [OF setup_fan, of c_int collectives_1gpu int "Fin (1 / 2)" "[]"]
  by simp

text \<open>
  C4, as the code has it. On a solver that is not set up, \<open>solve\<close> throws "Solve was
  called before setup" and leaves the output slot and the solver as they were. The
  constructor has allocated the bookmark and the transition-value buffer, \<open>solve\<close>
  releases nothing, and so the solver still holds both.
\<close>

theorem solve_before_setup:
  "(\<not> is_setup s \<longrightarrow>
      solve X max_iter s pagerank =
        (Some (Exception ''Solve was called before setup''), s, pagerank)) \<and>
   (SNMGpagerank_ctor val_t env po offs cols a0 junk m = Inr (s, m') \<longrightarrow>
      \<not> is_setup s \<and> Bookmark (id_thr s) \<in> set (held m') \<and> Val (id_thr s) \<in> set (held m'))"
proof (intro conjI impI)
  assume "\<not> is_setup s"
  then show "solve X max_iter s pagerank =
        (Some (Exception ''Solve was called before setup''), s, pagerank)"
    by (simp add: solve_eq)
next
  assume c: "SNMGpagerank_ctor val_t env po offs cols a0 junk m = Inr (s, m')"
  show "\<not> is_setup s" by (rule ctor_Inr(1)[OF c])
  have "set (held [Alloc (Bookmark (id_thr s)) (sizeof val_t * v_glob s),
                   Alloc (Val (id_thr s)) (sizeof val_t * e_loc s)]) \<subseteq> set (held m')"
    unfolding ctor_Inr(6)[OF c] by (rule held_append)
  then show "Bookmark (id_thr s) \<in> set (held m')" and "Val (id_thr s) \<in> set (held m')"
    by auto
qed

theorem solve_before_setup_witness:
  "\<not> is_setup fan_solver \<and>
   SNMGpagerank_ctor c_float env_1gpu fan_part_off fan_off fan_ind (Fin 7) of_size_t [] =
     Inr (fan_solver, [Alloc (Bookmark 0) 12, Alloc (Val 0) 8]) \<and>
   solve collectives_1gpu 10 fan_solver [Fin 5, Fin 6, Fin 7] =
     (Some (Exception ''Solve was called before setup''), fan_solver, [Fin 5, Fin 6, Fin 7]) \<and>
   Bookmark (id_thr fan_solver) \<in> set (held [Alloc (Bookmark 0) 12, Alloc (Val 0) 8]) \<and>
   Val (id_thr fan_solver) \<in> set (held [Alloc (Bookmark 0) 12, Alloc (Val 0) 8])"
  using ctor_fan
    solve_before_setup [of fan_solver collectives_1gpu 10 "[Fin 5, Fin 6, Fin 7]" c_float
      env_1gpu fan_part_off fan_off fan_ind "Fin 7" of_size_t "[]"
      "[Alloc (Bookmark 0) 12, Alloc (Val 0) 8]"]
  by simp

text \<open>
  The claim C4 as the specification words it fails: after the \<open>solve\<close> that throws, the
  solver built on the example graph holds its bookmark and transition-value buffers.
\<close>

theorem solve_before_setup_holds_buffers:
  "SNMGpagerank_ctor c_float env_1gpu fan_part_off fan_off fan_ind (Fin 7) of_size_t [] =
     Inr (fan_solver, [Alloc (Bookmark 0) 12, Alloc (Val 0) 8]) \<and>
   solve collectives_1gpu 10 fan_solver [Fin 5, Fin 6, Fin 7] =
     (Some (Exception ''Solve was called before setup''), fan_solver, [Fin 5, Fin 6, Fin 7]) \<and>
   held [Alloc (Bookmark 0) 12, Alloc (Val 0) 8] = [Bookmark 0, Val 0]"
  by (simp add: ctor_fan solve_eq) (simp add: fan_solver_def)

text \<open>
  C8. A call of \<open>solve\<close> on a set-up solver returns normally and leaves the solver as it
  was: the transition values, the bookmark and \<open>alpha\<close> are unchanged and \<open>is_setup\<close>
  still holds, so that \<open>solve\<close> can be called on the result again, any number of times.
\<close>

theorem solve_preserves_setup_state:
  assumes "is_setup s" and "solve X max_iter s pagerank = (r, s', pr)"
  shows "r = None \<and> val s' = val s \<and> bookmark s' = bookmark s \<and> alpha s' = alpha s \<and>
         is_setup s' \<and> s' = s \<and> fst (solve X2 max_iter2 s' pagerank2) = None"
  using assms by (auto simp: solve_eq)

theorem solve_preserves_setup_state_witness:
  "is_setup fan_ready \<and>
   solve collectives_1gpu 0 fan_ready [Fin 5, Fin 6, Fin 7] =
     (None, fan_ready, spec_solve collectives_1gpu 0 fan_ready [Fin 5, Fin 6, Fin 7]) \<and>
   val fan_ready = [Fin (1 / 2), Fin (1 / 2)] \<and> is_setup fan_ready \<and>
   fst (solve collectives_1gpu 50 fan_ready [Fin 5, Fin 6, Fin 7]) = None"
proof -
  have h: "is_setup fan_ready"
    by (simp add: fan_ready_def fan_solver_def)
  have e: "solve collectives_1gpu 0 fan_ready [Fin 5, Fin 6, Fin 7] =
     (None, fan_ready, spec_solve collectives_1gpu 0 fan_ready [Fin 5, Fin 6, Fin 7])"
    using h by (simp add: solve_eq)
  have v: "val fan_ready = [Fin (1 / 2), Fin (1 / 2)]"
    by (simp add: fan_ready_def fan_solver_def)
  from h e v solve_preserves_setup_state [OF h e, of collectives_1gpu 50 "[Fin 5, Fin 6, Fin 7]"]
  show ?thesis by simp
qed

text \<open>
  A run on the example graph with no iteration: the uniform vector, already of L1 norm
  one.
\<close>

lemma solve_fan_zero_iterations:
  "solve collectives_1gpu 0 fan_ready [Fin 5, Fin 6, Fin 7] =
     (None, fan_ready, [Fin (1 / 3), Fin (1 / 3), Fin (1 / 3)])"
  by (simp add: solve_eq spec_solve_def fill_def scal_def nrm1_def dot_def of_size_t_def
      fan_ready_def fan_solver_def)
subsection \<open>The driver\<close>

lemma setup_fields:
  assumes "setup_pagerank idx_t X junk a s m = (None, s', m')"
  shows "v_glob s' = v_glob s" and "id_thr s' = id_thr s"
    and "length (bookmark s') = length (bookmark s)"
  using assms
  by (auto simp: setup_pagerank_def Let_def flag_leafs_def transition_vals_def
      split: if_splits sum.splits)

lemma part_offset_last: "rd (map f [0..<n + 1]) n = Inr v \<Longrightarrow> v = f n"
  by (auto simp: rd_def nth_append split: if_splits)

lemma nth_part_offset: "map f [0..<n + 1] ! n = f n"
  by (simp add: nth_append)

text \<open>
  What a worker that completes has done: it read its two columns, converted them, built
  its solver on the arrays of the conversion, set it up with the damping factor and
  solved into a fresh buffer of \<open>part_offset[p]\<close> cells; worker 0 published that vector.
\<close>

lemma thread_body_Inr:
  assumes "thread_body idx_t val_t E src dest n damping_factor n_iter i pr_col m = Inr (st, c1, m1)"
  shows "\<exists>dest_i src_i offs cols s0 m0 s1 m2 pr.
           rd dest i = Inr dest_i \<and> rd src i = Inr src_i \<and>
           gdf_snmg_coo2csr E i dest_i src_i = (st, offs, cols) \<and>
           SNMGpagerank_ctor val_t \<lparr>get_thread_num = i, get_num_threads = n\<rparr>
             (map (coo2csr_part_offset E) [0..<n + 1]) offs cols
             (junk_alpha E) (junk_values E) m = Inr (s0, m0) \<and>
           setup_pagerank idx_t (collective_ops E) (junk_indices E) damping_factor s0 m0 =
             (None, s1, m2) \<and>
           solve (collective_ops E) n_iter s1
             (alloc_cells (coo2csr_part_offset E n) (junk_values E)) = (None, s1, pr) \<and>
           is_setup s1 \<and> id_thr s1 = i \<and> v_glob s1 = coo2csr_part_offset E n \<and>
           length pr = coo2csr_part_offset E n \<and>
           c1 = (if i = 0
                 then (gdf_col_set_defaults E pr_col)
                        \<lparr>data := ValueData pr, size_col := coo2csr_part_offset E n,
                         dtype := GDF_FLOAT32\<rparr>
                 else pr_col)"
proof -
  let ?po = "map (coo2csr_part_offset E) [0..<n + 1]"
  from assms obtain dest_i src_i where
    d: "rd dest i = Inr dest_i" and s: "rd src i = Inr src_i"
    by (auto simp: thread_body_def Let_def split: sum.splits)
  obtain status_i offs cols where c: "gdf_snmg_coo2csr E i dest_i src_i = (status_i, offs, cols)"
    by (cases "gdf_snmg_coo2csr E i dest_i src_i") auto
  from assms d s c obtain s0 m0 where
    ct: "SNMGpagerank_ctor val_t \<lparr>get_thread_num = i, get_num_threads = n\<rparr> ?po offs cols
           (junk_alpha E) (junk_values E) m = Inr (s0, m0)"
    by (auto simp: thread_body_def Let_def split: sum.splits)
  obtain r1 s1 m2 where
    su: "setup_pagerank idx_t (collective_ops E) (junk_indices E) damping_factor s0 m0 = (r1, s1, m2)"
    by (cases "setup_pagerank idx_t (collective_ops E) (junk_indices E) damping_factor s0 m0") auto
  from assms d s c ct su have r1: "r1 = None"
    by (cases r1) (auto simp: thread_body_def Let_def)
  let ?buf = "alloc_cells (coo2csr_part_offset E n) (junk_values E)"
  have set1: "is_setup s1" using setup_success(3) su r1 by blast
  have "rd ?po n = Inr (v_glob s0)"
    using ctor_Inr(5)[OF ct] by simp
  then have "v_glob s0 = coo2csr_part_offset E n"
    by (rule part_offset_last)
  then have vg: "v_glob s1 = coo2csr_part_offset E n"
    using setup_fields(1)[OF su[unfolded r1]] by simp
  have idt: "id_thr s1 = i"
    using setup_fields(2)[OF su[unfolded r1]] ctor_Inr(2)[OF ct] by simp
  let ?pr = "spec_solve (collective_ops E) (nat n_iter) s1 ?buf"
  have so: "solve (collective_ops E) n_iter s1 ?buf = (None, s1, ?pr)"
    using set1 by (simp add: solve_eq)
  have lp: "length ?pr = coo2csr_part_offset E n" by simp
  have "c1 = (if i = 0
              then (gdf_col_set_defaults E pr_col)
                     \<lparr>data := ValueData ?pr, size_col := coo2csr_part_offset E n,
                      dtype := GDF_FLOAT32\<rparr>
              else pr_col)"
    using assms d s c ct su r1 so
    by (auto simp: thread_body_def Let_def nth_append master_block_def split: prod.splits)
  moreover have "st = status_i"
    using assms d s c ct su r1 so
    by (auto simp: thread_body_def Let_def nth_append split: prod.splits)
  ultimately show ?thesis
    using d s c ct su[unfolded r1] set1 idt vg so lp
    by (intro exI[of _ dest_i] exI[of _ src_i] exI[of _ offs] exI[of _ cols] exI[of _ s0]
        exI[of _ m0] exI[of _ s1] exI[of _ m2] exI[of _ ?pr]) simp
qed

lemma parallel_region_others:
  "0 \<notin> set ws \<Longrightarrow>
   parallel_region idx_t val_t E src dest n damping_factor n_iter ws (st, c, m) = Inr (st', c', m')
   \<Longrightarrow> c' = c"
proof (induction ws arbitrary: st c m)
  case Nil
  then show ?case by simp
next
  case (Cons i ws)
  from Cons.prems obtain sti ci mi where
    tb: "thread_body idx_t val_t E src dest n damping_factor n_iter i c m = Inr (sti, ci, mi)" and
    rest: "parallel_region idx_t val_t E src dest n damping_factor n_iter ws
             (if sti \<noteq> GDF_SUCCESS then sti else st, ci, mi) = Inr (st', c', m')"
    by (auto split: sum.splits)
  from Cons.prems have "i \<noteq> 0" by auto
  with thread_body_Inr[OF tb] have "ci = c" by auto
  moreover from Cons.prems have "0 \<notin> set ws" by simp
  from Cons.IH[OF this rest] have "c' = ci" .
  ultimately show ?case by simp
qed

lemma impl_publishes:
  assumes "gdf_snmg_pagerank_impl idx_t val_t E src dest pr_col n damping_factor n_iter m =
             Inr (st, c1, m1)"
    and "0 < n"
  shows "\<exists>dest_0 src_0 st0 offs cols s0 m0 s1 m2 pr.
           rd dest 0 = Inr dest_0 \<and> rd src 0 = Inr src_0 \<and>
           gdf_snmg_coo2csr E 0 dest_0 src_0 = (st0, offs, cols) \<and>
           SNMGpagerank_ctor val_t \<lparr>get_thread_num = 0, get_num_threads = n\<rparr>
             (map (coo2csr_part_offset E) [0..<n + 1]) offs cols
             (junk_alpha E) (junk_values E) m = Inr (s0, m0) \<and>
           setup_pagerank idx_t (collective_ops E) (junk_indices E) damping_factor s0 m0 =
             (None, s1, m2) \<and>
           solve (collective_ops E) n_iter s1
             (alloc_cells (coo2csr_part_offset E n) (junk_values E)) = (None, s1, pr) \<and>
           is_setup s1 \<and> id_thr s1 = 0 \<and> v_glob s1 = coo2csr_part_offset E n \<and>
           length pr = coo2csr_part_offset E n \<and>
           c1 = (gdf_col_set_defaults E pr_col)
                  \<lparr>data := ValueData pr, size_col := coo2csr_part_offset E n,
                   dtype := GDF_FLOAT32\<rparr>"
proof -
  from assms(2) have ws: "[0..<n] = 0 # [1..<n]"
    by (simp add: upt_conv_Cons)
  from assms(1) obtain st0 c0 m0 where
    tb: "thread_body idx_t val_t E src dest n damping_factor n_iter 0 pr_col m = Inr (st0, c0, m0)"
    and rest: "parallel_region idx_t val_t E src dest n damping_factor n_iter [1..<n]
             (if st0 \<noteq> GDF_SUCCESS then st0 else GDF_SUCCESS, c0, m0) = Inr (st, c1, m1)"
    unfolding gdf_snmg_pagerank_impl_def ws by (auto split: sum.splits)
  have "0 \<notin> set [1..<n]" by simp
  from parallel_region_others[OF this rest] have c1: "c1 = c0" .
  from thread_body_Inr[OF tb] show ?thesis
    unfolding c1 by simp blast
qed

lemma impl_dtype:
  assumes "gdf_snmg_pagerank_impl idx_t val_t E src dest pr_col n damping_factor n_iter m =
             Inr (st, c1, m1)"
    and "0 < n"
  shows "dtype c1 = GDF_FLOAT32"
  using impl_publishes[OF assms] by auto
subsection \<open>The entry point\<close>

lemma check_columns_first_failure:
  "n \<le> length src \<Longrightarrow> n \<le> length dest \<Longrightarrow> i \<le> n \<Longrightarrow>
   check_columns src dest n i = Inr (first_failure (drop i (zip (take n src) (take n dest))))"
proof (induction "n - i" arbitrary: i)
  case 0
  then have "i = n" by simp
  then show ?case
    using 0 by (subst check_columns.simps) simp
next
  case (Suc k)
  then have lt: "i < n" by simp
  with Suc.prems have rs: "rd src i = Inr (src ! i)" and rdd: "rd dest i = Inr (dest ! i)"
    by (simp_all add: rd_def)
  let ?zs = "zip (take n src) (take n dest)"
  have len: "i < length ?zs" using lt Suc.prems by simp
  have "drop i ?zs = ?zs ! i # drop (Suc i) ?zs"
    using len by (rule Cons_nth_drop_Suc[symmetric])
  moreover have "?zs ! i = (src ! i, dest ! i)"
    using len lt by simp
  ultimately have dr: "drop i ?zs = (src ! i, dest ! i) # drop (Suc i) ?zs" by simp
  have ih: "check_columns src dest n (Suc i) = Inr (first_failure (drop (Suc i) ?zs))"
    using Suc.hyps(1)[of "Suc i"] Suc.hyps(2) Suc.prems lt by simp
  show ?case
    using lt rs rdd ih
    by (subst check_columns.simps) (simp add: dr pair_status_def)
qed

lemma pair_status_SUCCESS:
  "pair_status s d = GDF_SUCCESS \<longleftrightarrow>
     size_col s = size_col d \<and> dtype s = GDF_INT32 \<and> dtype d = GDF_INT32 \<and>
     null_count s = 0 \<and> null_count d = 0"
  by (auto simp: pair_status_def)

lemma pair_status_violated:
  "pair_status s d = GDF_COLUMN_SIZE_MISMATCH \<Longrightarrow> size_col s \<noteq> size_col d"
  "pair_status s d = GDF_UNSUPPORTED_DTYPE \<Longrightarrow>
     dtype s \<noteq> dtype d \<or> dtype s \<noteq> GDF_INT32 \<or> dtype d \<noteq> GDF_INT32"
  "pair_status s d = GDF_VALIDITY_UNSUPPORTED \<Longrightarrow> null_count s \<noteq> 0 \<or> null_count d \<noteq> 0"
  "pair_status s d \<in> {GDF_SUCCESS, GDF_COLUMN_SIZE_MISMATCH, GDF_UNSUPPORTED_DTYPE,
     GDF_VALIDITY_UNSUPPORTED}"
  by (auto simp: pair_status_def split: if_splits)

lemma first_failure_SUCCESS:
  "first_failure ps = GDF_SUCCESS \<longleftrightarrow> (\<forall>(s, d) \<in> set ps. pair_status s d = GDF_SUCCESS)"
  by (induction ps) (auto split: if_splits)

lemma first_failure_of_pair:
  "first_failure ps \<noteq> GDF_SUCCESS \<Longrightarrow> \<exists>(s, d) \<in> set ps. first_failure ps = pair_status s d"
  by (induction ps) (auto split: if_splits)

lemma set_zip_take:
  assumes "n \<le> length src" and "n \<le> length dest"
  shows "set (zip (take n src) (take n dest)) = {(src ! i, dest ! i) | i. i < n}"
proof (intro set_eqI iffI)
  fix p assume "p \<in> set (zip (take n src) (take n dest))"
  then obtain i where "p = (take n src ! i, take n dest ! i)" "i < n"
    using assms by (auto simp: set_zip)
  then show "p \<in> {(src ! i, dest ! i) | i. i < n}" by auto
next
  fix p assume "p \<in> {(src ! i, dest ! i) | i. i < n}"
  then obtain i where i: "p = (src ! i, dest ! i)" "i < n" by auto
  then have "p = (take n src ! i, take n dest ! i)" by simp
  moreover have "i < min (length (take n src)) (length (take n dest))"
    using i assms by simp
  ultimately show "p \<in> set (zip (take n src) (take n dest))"
    unfolding set_zip by blast
qed

lemma first_failure_zip_pairs:
  assumes "n \<le> length src" and "n \<le> length dest"
  shows "first_failure (zip (take n src) (take n dest)) = GDF_SUCCESS \<longleftrightarrow>
           (\<forall>i<n. pair_status (src ! i) (dest ! i) = GDF_SUCCESS)"
  unfolding first_failure_SUCCESS set_zip_take[OF assms] by blast

lemma pair_status_not_SUCCESS:
  "pair_status s d \<noteq> GDF_SUCCESS \<longleftrightarrow>
     size_col s \<noteq> size_col d \<or>
     (dtype s \<noteq> dtype d \<or> dtype s \<noteq> GDF_INT32 \<or> dtype d \<noteq> GDF_INT32) \<or>
     (null_count s \<noteq> 0 \<or> null_count d \<noteq> 0)"
  unfolding pair_status_SUCCESS by auto

lemma first_failure_zip_SUCCESS:
  assumes "n \<le> length src" and "n \<le> length dest"
  shows "first_failure (zip (take n src) (take n dest)) = GDF_SUCCESS \<longleftrightarrow>
           \<not> length_mismatch src dest n \<and> \<not> dtype_unsupported src dest n \<and>
           \<not> nulls_present src dest n"
proof -
  have "(\<forall>i<n. pair_status (src ! i) (dest ! i) = GDF_SUCCESS) \<longleftrightarrow>
        \<not> (\<exists>i<n. pair_status (src ! i) (dest ! i) \<noteq> GDF_SUCCESS)"
    by blast
  also have "\<dots> \<longleftrightarrow> \<not> (length_mismatch src dest n \<or> dtype_unsupported src dest n \<or>
                         nulls_present src dest n)"
    unfolding pair_status_not_SUCCESS length_mismatch_def dtype_unsupported_def
      nulls_present_def by blast
  finally show ?thesis
    unfolding first_failure_zip_pairs[OF assms] by simp
qed

lemma first_failure_zip_violated:
  assumes "n \<le> length src" and "n \<le> length dest"
    and "first_failure (zip (take n src) (take n dest)) = e" and "e \<noteq> GDF_SUCCESS"
  shows "(e = GDF_COLUMN_SIZE_MISMATCH \<and> length_mismatch src dest n) \<or>
         (e = GDF_UNSUPPORTED_DTYPE \<and> dtype_unsupported src dest n) \<or>
         (e = GDF_VALIDITY_UNSUPPORTED \<and> nulls_present src dest n)"
proof -
  from first_failure_of_pair[of "zip (take n src) (take n dest)"] assms(3,4)
  obtain s d where "(s, d) \<in> set (zip (take n src) (take n dest))" and e: "e = pair_status s d"
    by auto
  then obtain i where i: "i < n" "s = src ! i" "d = dest ! i"
    unfolding set_zip_take[OF assms(1,2)] by auto
  from pair_status_violated(4)[of s d] e assms(4)
  consider "e = GDF_COLUMN_SIZE_MISMATCH" | "e = GDF_UNSUPPORTED_DTYPE"
    | "e = GDF_VALIDITY_UNSUPPORTED" by auto
  then show ?thesis
  proof cases
    case 1
    then have "size_col (src ! i) \<noteq> size_col (dest ! i)"
      using e i pair_status_violated(1)[of s d] by simp
    then have "length_mismatch src dest n"
      unfolding length_mismatch_def using i(1) by blast
    with 1 show ?thesis by simp
  next
    case 2
    then have "dtype (src ! i) \<noteq> dtype (dest ! i) \<or> dtype (src ! i) \<noteq> GDF_INT32 \<or>
               dtype (dest ! i) \<noteq> GDF_INT32"
      using e i pair_status_violated(2)[of s d] by simp
    then have "dtype_unsupported src dest n"
      unfolding dtype_unsupported_def using i(1) by blast
    with 2 show ?thesis by simp
  next
    case 3
    then have "null_count (src ! i) \<noteq> 0 \<or> null_count (dest ! i) \<noteq> 0"
      using e i pair_status_violated(3)[of s d] by simp
    then have "nulls_present src dest n"
      unfolding nulls_present_def using i(1) by blast
    with 3 show ?thesis by simp
  qed
qed

lemma device_count_check:
  "0 \<le> dc \<Longrightarrow> dc < 2 ^ 31 - 1 \<Longrightarrow> n < size_t_of_int (dc + 1) \<longleftrightarrow> int n \<le> dc"
proof -
  assume a: "0 \<le> dc" "dc < 2 ^ 31 - 1"
  then have "(dc + 1) mod 2 ^ 64 = dc + 1" by simp
  then show ?thesis using a by (simp add: size_t_of_int_def) linarith
qed

lemma entry_eq:
  assumes "0 \<le> cudaGetDeviceCount E" and "cudaGetDeviceCount E < 2 ^ 31 - 1"
    and "n \<le> length src" and "n \<le> length dest"
  shows "gdf_snmg_pagerank E (Some src) (Some dest) (Some col) n damping_factor n_iter m =
     (if \<not> scalars_ok E n damping_factor n_iter then Inr (GDF_INVALID_API_CALL, Some col, m)
      else if first_failure (zip (take n src) (take n dest)) \<noteq> GDF_SUCCESS
        then Inr (first_failure (zip (take n src) (take n dest)), Some col, m)
      else (case gdf_snmg_pagerank_impl c_int c_float E src dest col n damping_factor n_iter m of
              Inl f \<Rightarrow> Inl f
            | Inr (status, col1, m1) \<Rightarrow> Inr (status, Some col1, m1)))"
proof -
  have cc: "check_columns src dest n 0 = Inr (first_failure (zip (take n src) (take n dest)))"
    using check_columns_first_failure[OF assms(3,4), of 0] by simp
  show ?thesis
    using device_count_check[OF assms(1,2), of n]
    by (simp add: gdf_snmg_pagerank_def scalars_ok_def cc split: gdf_error.splits)
qed

lemma entry_invalid_scalars:
  assumes "0 \<le> cudaGetDeviceCount E" and "cudaGetDeviceCount E < 2 ^ 31 - 1"
    and "\<not> scalars_ok E n damping_factor n_iter"
  shows "gdf_snmg_pagerank E srcp destp colp n damping_factor n_iter m =
           Inr (GDF_INVALID_API_CALL, colp, m)"
  using device_count_check[OF assms(1,2), of n] assms(3)
  by (auto simp: gdf_snmg_pagerank_def scalars_ok_def split: option.splits)

lemma entry_null_pointer:
  "srcp = None \<or> destp = None \<or> colp = None \<Longrightarrow>
   gdf_snmg_pagerank E srcp destp colp n damping_factor n_iter m =
     Inr (GDF_INVALID_API_CALL, colp, m)"
  by (auto simp: gdf_snmg_pagerank_def split: option.splits)

lemma entry_Inr:
  assumes "gdf_snmg_pagerank E srcp destp colp n damping_factor n_iter m = Inr (st, colp', m')"
  shows "(st \<noteq> GDF_SUCCESS \<and> colp' = colp \<and> m' = m) \<or>
         (\<exists>src dest col c1. srcp = Some src \<and> destp = Some dest \<and> colp = Some col \<and>
            colp' = Some c1 \<and> 0 < n \<and>
            gdf_snmg_pagerank_impl c_int c_float E src dest col n damping_factor n_iter m =
              Inr (st, c1, m'))"
  using assms
  by (auto simp: gdf_snmg_pagerank_def split: option.splits if_splits sum.splits gdf_error.splits)

subsection \<open>A run on the example graph\<close>

lemma impl_fan:
  "gdf_snmg_pagerank_impl c_int val_t (externals_fan code) [fan_src] [fan_dest] empty_col 1
     (Fin (17 / 20)) 1 [] =
   Inr (code,
        \<lparr>data = ValueData (spec_solve collectives_1gpu 1 fan_ready [Fin 0, Fin 1, Fin 2]),
         size_col = 3, dtype = GDF_FLOAT32, null_count = 0\<rparr>,
        [Alloc (Bookmark 0) (sizeof val_t * 3), Alloc (Val 0) (sizeof val_t * 2),
         Alloc (DegreeLoc 0) 12, Free (DegreeLoc 0),
         Alloc (Pagerank 0) (sizeof val_t * 3), Alloc PrColData (sizeof val_t * 3),
         Free (Pagerank 0), Free (Bookmark 0), Free (Val 0)])"
proof -
  let ?E = "externals_fan code"
  have po: "map (coo2csr_part_offset ?E) [0..<1 + 1] = fan_part_off"
    by (simp add: externals_fan_def fan_part_offset_def fan_part_off_def upt_rec)
  have env: "\<lparr>get_thread_num = 0, get_num_threads = 1\<rparr> = env_1gpu"
    by (simp add: env_1gpu_def)
  have p1: "fan_part_off ! Suc 0 = 3"
    by (simp add: fan_part_off_def)
  have ready: "is_setup fan_ready" "id_thr fan_ready = 0"
    by (simp_all add: fan_ready_def fan_solver_def)
  have ex: "gdf_snmg_coo2csr ?E = coo2csr_fan code" "junk_alpha ?E = Fin 7"
    "junk_values ?E = of_size_t" "junk_indices ?E = int"
    "collective_ops ?E = collectives_1gpu" "gdf_col_set_defaults ?E = set_defaults"
    by (simp_all add: externals_fan_def)
  have buf: "alloc_cells 3 of_size_t = [Fin 0, Fin 1, Fin 2]"
    by (simp add: alloc_cells_def upt_rec of_size_t_def)
  have tb: "thread_body c_int val_t ?E [fan_src] [fan_dest] 1 (Fin (17 / 20)) 1 0 empty_col [] =
     Inr (code,
        \<lparr>data = ValueData (spec_solve collectives_1gpu 1 fan_ready [Fin 0, Fin 1, Fin 2]),
              size_col = 3, dtype = GDF_FLOAT32, null_count = 0\<rparr>,
        [Alloc (Bookmark 0) (sizeof val_t * 3), Alloc (Val 0) (sizeof val_t * 2),
         Alloc (DegreeLoc 0) 12, Free (DegreeLoc 0),
         Alloc (Pagerank 0) (sizeof val_t * 3), Alloc PrColData (sizeof val_t * 3),
         Free (Pagerank 0), Free (Bookmark 0), Free (Val 0)])"
    unfolding thread_body_def Let_def po env
    by (simp add: rd_def ex coo2csr_fan_def ctor_fan_any setup_fan_log p1 buf solve_eq ready
        master_block_def set_defaults_def empty_col_def SNMGpagerank_dtor_def)
  show ?thesis
    by (simp add: gdf_snmg_pagerank_impl_def tb [unfolded One_nat_def])
qed

lemma run_fan:
  "gdf_snmg_pagerank (externals_fan code) (Some [fan_src]) (Some [fan_dest]) (Some empty_col) 1
     (Fin (17 / 20)) 1 [] =
   Inr (code,
        Some \<lparr>data = ValueData (spec_solve collectives_1gpu 1 fan_ready [Fin 0, Fin 1, Fin 2]),
              size_col = 3, dtype = GDF_FLOAT32, null_count = 0\<rparr>,
        [Alloc (Bookmark 0) 12, Alloc (Val 0) 8, Alloc (DegreeLoc 0) 12, Free (DegreeLoc 0),
         Alloc (Pagerank 0) 12, Alloc PrColData 12, Free (Pagerank 0),
         Free (Bookmark 0), Free (Val 0)])"
proof -
  let ?E = "externals_fan code"
  have cc: "check_columns [fan_src] [fan_dest] 1 0 = Inr GDF_SUCCESS"
    by (simp add: check_columns.simps rd_def fan_src_def fan_dest_def)
  have dc: "cudaGetDeviceCount ?E = 1"
    by (simp add: externals_fan_def)
  show ?thesis
    by (simp add: gdf_snmg_pagerank_def dc cc [unfolded One_nat_def]
        impl_fan [of c_float, unfolded One_nat_def] size_t_of_int_def)
qed
subsection \<open>The claims on the driver and the entry point\<close>

text \<open>
  C3, on the code. The conversion of the only worker reports \<open>GDF_CUDA_ERROR\<close>. The
  worker records the code and goes on: the solver is built, set up and run on the
  arrays the conversion left, and the master block fills the output column. The call
  returns \<open>GDF_CUDA_ERROR\<close> together with a column that has data, a size and the
  element type \<open>GDF_FLOAT32\<close>.
\<close>

theorem failed_conversion_still_publishes:
  "gdf_snmg_pagerank (externals_fan GDF_CUDA_ERROR) (Some [fan_src]) (Some [fan_dest])
     (Some empty_col) 1 (Fin (17 / 20)) 1 [] =
   Inr (GDF_CUDA_ERROR,
        Some \<lparr>data = ValueData (spec_solve collectives_1gpu 1 fan_ready [Fin 0, Fin 1, Fin 2]),
              size_col = 3, dtype = GDF_FLOAT32, null_count = 0\<rparr>,
        [Alloc (Bookmark 0) 12, Alloc (Val 0) 8, Alloc (DegreeLoc 0) 12, Free (DegreeLoc 0),
         Alloc (Pagerank 0) 12, Alloc PrColData 12, Free (Pagerank 0),
         Free (Bookmark 0), Free (Val 0)])"
  by (rule run_fan)

text \<open>
  C6. The checks of the entry point come before the driver, where every allocation of a
  run is made: a call that a check rejects returns the code with the output column and
  the allocator's log as they were. For a device count that fits an \<^verbatim>\<open>int\<close> and arrays
  of at least \<open>n_gpus\<close> columns: a damping factor outside \<open>(0, 1)\<close>, an iteration count
  that is not positive or a number of devices outside \<open>(0, dev_count]\<close> yield
  \<open>GDF_INVALID_API_CALL\<close>; with these in order, mismatched lengths on some device yield
  \<open>GDF_COLUMN_SIZE_MISMATCH\<close>, mismatched or non-32-bit-integer element types yield
  \<open>GDF_UNSUPPORTED_DTYPE\<close> and null markers yield \<open>GDF_VALIDITY_UNSUPPORTED\<close>, each
  when it is the kind of violation present, and when several kinds are present the code
  is that of one of them; when no check is violated the result is the driver's.
\<close>

theorem validation_yields_status_of_violated_check:
  assumes "0 \<le> cudaGetDeviceCount E" and "cudaGetDeviceCount E < 2 ^ 31 - 1"
    and "n \<le> length src" and "n \<le> length dest"
  shows "(let R = gdf_snmg_pagerank E (Some src) (Some dest) (Some col) n damping_factor n_iter m;
              rejected = (\<lambda>e. R = Inr (e, Some col, m))
          in (\<not> scalars_ok E n damping_factor n_iter \<longrightarrow> rejected GDF_INVALID_API_CALL) \<and>
             (scalars_ok E n damping_factor n_iter \<and> length_mismatch src dest n \<and>
              \<not> dtype_unsupported src dest n \<and> \<not> nulls_present src dest n \<longrightarrow>
                rejected GDF_COLUMN_SIZE_MISMATCH) \<and>
             (scalars_ok E n damping_factor n_iter \<and> dtype_unsupported src dest n \<and>
              \<not> length_mismatch src dest n \<and> \<not> nulls_present src dest n \<longrightarrow>
                rejected GDF_UNSUPPORTED_DTYPE) \<and>
             (scalars_ok E n damping_factor n_iter \<and> nulls_present src dest n \<and>
              \<not> length_mismatch src dest n \<and> \<not> dtype_unsupported src dest n \<longrightarrow>
                rejected GDF_VALIDITY_UNSUPPORTED) \<and>
             (scalars_ok E n damping_factor n_iter \<and>
              (length_mismatch src dest n \<or> dtype_unsupported src dest n \<or>
               nulls_present src dest n) \<longrightarrow>
                (rejected GDF_COLUMN_SIZE_MISMATCH \<and> length_mismatch src dest n) \<or>
                (rejected GDF_UNSUPPORTED_DTYPE \<and> dtype_unsupported src dest n) \<or>
                (rejected GDF_VALIDITY_UNSUPPORTED \<and> nulls_present src dest n)) \<and>
             (scalars_ok E n damping_factor n_iter \<and> \<not> length_mismatch src dest n \<and>
              \<not> dtype_unsupported src dest n \<and> \<not> nulls_present src dest n \<longrightarrow>
                R = (case gdf_snmg_pagerank_impl c_int c_float E src dest col n damping_factor
                            n_iter m of
                       Inl f \<Rightarrow> Inl f
                     | Inr (status, col1, m1) \<Rightarrow> Inr (status, Some col1, m1))))"
proof -
  let ?R = "gdf_snmg_pagerank E (Some src) (Some dest) (Some col) n damping_factor n_iter m"
  let ?ff = "first_failure (zip (take n src) (take n dest))"
  let ?LM = "length_mismatch src dest n"
  let ?DU = "dtype_unsupported src dest n"
  let ?NP = "nulls_present src dest n"
  let ?ok = "scalars_ok E n damping_factor n_iter"
  note eq = entry_eq[OF assms, of col damping_factor n_iter m]
  note succ = first_failure_zip_SUCCESS[OF assms(3,4)]
  have bad: "\<not> ?ok \<Longrightarrow> ?R = Inr (GDF_INVALID_API_CALL, Some col, m)"
    using eq by simp
  have some: "(?R = Inr (GDF_COLUMN_SIZE_MISMATCH, Some col, m) \<and> ?LM) \<or>
              (?R = Inr (GDF_UNSUPPORTED_DTYPE, Some col, m) \<and> ?DU) \<or>
              (?R = Inr (GDF_VALIDITY_UNSUPPORTED, Some col, m) \<and> ?NP)"
    if ok: "?ok" and v: "?LM \<or> ?DU \<or> ?NP"
  proof -
    from v succ have ne: "?ff \<noteq> GDF_SUCCESS" by blast
    with eq ok have r: "?R = Inr (?ff, Some col, m)" by simp
    from first_failure_zip_violated[OF assms(3,4) refl ne] show ?thesis
      unfolding r by auto
  qed
  have pass: "?R = (case gdf_snmg_pagerank_impl c_int c_float E src dest col n damping_factor
                            n_iter m of
                       Inl f \<Rightarrow> Inl f
                     | Inr (status, col1, m1) \<Rightarrow> Inr (status, Some col1, m1))"
    if "?ok" and "\<not> ?LM" and "\<not> ?DU" and "\<not> ?NP"
    using eq that succ by simp
  have lm: "?R = Inr (GDF_COLUMN_SIZE_MISMATCH, Some col, m)"
    if "?ok" and "?LM" and "\<not> ?DU" and "\<not> ?NP"
    using some[OF that(1)] that by blast
  have du: "?R = Inr (GDF_UNSUPPORTED_DTYPE, Some col, m)"
    if "?ok" and "?DU" and "\<not> ?LM" and "\<not> ?NP"
    using some[OF that(1)] that by blast
  have np: "?R = Inr (GDF_VALIDITY_UNSUPPORTED, Some col, m)"
    if "?ok" and "?NP" and "\<not> ?LM" and "\<not> ?DU"
    using some[OF that(1)] that by blast
  show ?thesis
    unfolding Let_def using bad lm du np some pass by blast
qed

lemma scalars_ok_fan: "scalars_ok (externals_fan code) 1 (Fin (17 / 20)) 1"
  by (simp add: scalars_ok_def externals_fan_def)

lemma fan_pair_clean:
  "\<not> length_mismatch [fan_src] [fan_dest] 1" "\<not> dtype_unsupported [fan_src] [fan_dest] 1"
  "\<not> nulls_present [fan_src] [fan_dest] 1"
  by (simp_all add: length_mismatch_def dtype_unsupported_def nulls_present_def
      fan_src_def fan_dest_def)

theorem validation_yields_status_of_violated_check_witness:
  "0 \<le> cudaGetDeviceCount (externals_fan GDF_SUCCESS) \<and>
   cudaGetDeviceCount (externals_fan GDF_SUCCESS) < 2 ^ 31 - 1 \<and>
   1 \<le> length [fan_src\<lparr>size_col := 5\<rparr>] \<and> 1 \<le> length [fan_dest] \<and>
   scalars_ok (externals_fan GDF_SUCCESS) 1 (Fin (17 / 20)) 1 \<and>
   length_mismatch [fan_src\<lparr>size_col := 5\<rparr>] [fan_dest] 1 \<and>
   \<not> dtype_unsupported [fan_src\<lparr>size_col := 5\<rparr>] [fan_dest] 1 \<and>
   \<not> nulls_present [fan_src\<lparr>size_col := 5\<rparr>] [fan_dest] 1 \<and>
   gdf_snmg_pagerank (externals_fan GDF_SUCCESS) (Some [fan_src\<lparr>size_col := 5\<rparr>])
     (Some [fan_dest]) (Some empty_col) 1 (Fin (17 / 20)) 1 [] =
     Inr (GDF_COLUMN_SIZE_MISMATCH, Some empty_col, []) \<and>
   \<not> scalars_ok (externals_fan GDF_SUCCESS) 1 (Fin 2) 1 \<and>
   gdf_snmg_pagerank (externals_fan GDF_SUCCESS) (Some [fan_src\<lparr>size_col := 5\<rparr>])
     (Some [fan_dest]) (Some empty_col) 1 (Fin 2) 1 [] =
     Inr (GDF_INVALID_API_CALL, Some empty_col, []) \<and>
   \<not> length_mismatch [fan_src] [fan_dest] 1 \<and> \<not> dtype_unsupported [fan_src] [fan_dest] 1 \<and>
   \<not> nulls_present [fan_src] [fan_dest] 1 \<and>
   gdf_snmg_pagerank (externals_fan GDF_SUCCESS) (Some [fan_src]) (Some [fan_dest])
     (Some empty_col) 1 (Fin (17 / 20)) 1 [] =
     (case gdf_snmg_pagerank_impl c_int c_float (externals_fan GDF_SUCCESS) [fan_src] [fan_dest]
             empty_col 1 (Fin (17 / 20)) 1 [] of
        Inl f \<Rightarrow> Inl f
      | Inr (status, col1, m1) \<Rightarrow> Inr (status, Some col1, m1))"
proof -
  let ?E = "externals_fan GDF_SUCCESS"
  let ?bad = "[fan_src\<lparr>size_col := 5\<rparr>]"
  have dc: "0 \<le> cudaGetDeviceCount ?E" "cudaGetDeviceCount ?E < 2 ^ 31 - 1"
    by (simp_all add: externals_fan_def)
  have len: "1 \<le> length ?bad" "1 \<le> length [fan_dest]" "1 \<le> length [fan_src]"
    by simp_all
  have ok: "scalars_ok ?E 1 (Fin (17 / 20)) 1" by (rule scalars_ok_fan)
  have nok: "\<not> scalars_ok ?E 1 (Fin 2) 1"
    by (simp add: scalars_ok_def)
  have v: "length_mismatch ?bad [fan_dest] 1" "\<not> dtype_unsupported ?bad [fan_dest] 1"
    "\<not> nulls_present ?bad [fan_dest] 1"
    by (simp_all add: length_mismatch_def dtype_unsupported_def nulls_present_def
        fan_src_def fan_dest_def)
  note i1 = validation_yields_status_of_violated_check [OF dc len(1,2), where col = empty_col
      and damping_factor = "Fin (17 / 20)" and n_iter = 1 and m = "[]", unfolded Let_def]
  note i2 = validation_yields_status_of_violated_check [OF dc len(1,2), where col = empty_col
      and damping_factor = "Fin 2" and n_iter = 1 and m = "[]", unfolded Let_def]
  note i3 = validation_yields_status_of_violated_check [OF dc len(3,2), where col = empty_col
      and damping_factor = "Fin (17 / 20)" and n_iter = 1 and m = "[]", unfolded Let_def]
  from i1 ok v have r1: "gdf_snmg_pagerank ?E (Some ?bad) (Some [fan_dest]) (Some empty_col) 1
      (Fin (17 / 20)) 1 [] = Inr (GDF_COLUMN_SIZE_MISMATCH, Some empty_col, [])"
    by blast
  from i2 nok have r2: "gdf_snmg_pagerank ?E (Some ?bad) (Some [fan_dest]) (Some empty_col) 1
      (Fin 2) 1 [] = Inr (GDF_INVALID_API_CALL, Some empty_col, [])"
    by blast
  from i3 ok fan_pair_clean have r3: "gdf_snmg_pagerank ?E (Some [fan_src]) (Some [fan_dest])
     (Some empty_col) 1 (Fin (17 / 20)) 1 [] =
     (case gdf_snmg_pagerank_impl c_int c_float ?E [fan_src] [fan_dest]
             empty_col 1 (Fin (17 / 20)) 1 [] of
        Inl f \<Rightarrow> Inl f
      | Inr (status, col1, m1) \<Rightarrow> Inr (status, Some col1, m1))"
    by blast
  from dc len ok nok v fan_pair_clean r1 r2 r3 show ?thesis
    by (intro conjI)
qed

text \<open>
  The order of the checks shows when two are violated at once: with nulls on device 0
  and mismatched lengths on device 1 the code is that of the nulls.
\<close>

lemma earlier_check_decides:
  "gdf_snmg_pagerank ((externals_fan GDF_SUCCESS)\<lparr>cudaGetDeviceCount := 2\<rparr>)
     (Some [fan_src\<lparr>null_count := 1\<rparr>, fan_src\<lparr>size_col := 5\<rparr>])
     (Some [fan_dest, fan_dest]) (Some empty_col) 2 (Fin (17 / 20)) 1 [] =
     Inr (GDF_VALIDITY_UNSUPPORTED, Some empty_col, [])"
proof -
  have "check_columns [fan_src\<lparr>null_count := 1\<rparr>, fan_src\<lparr>size_col := 5\<rparr>]
          [fan_dest, fan_dest] 2 0 = Inr GDF_VALIDITY_UNSUPPORTED"
    by (simp add: check_columns.simps rd_def fan_src_def fan_dest_def)
  then show ?thesis
    by (simp add: gdf_snmg_pagerank_def externals_fan_def size_t_of_int_def)
qed



text \<open>
  C10. An input that passes every check of the entry point (with a device count that
  fits an \<^verbatim>\<open>int\<close> and arrays of at least \<open>n_gpus\<close> columns) is handed to the driver
  instantiated with \<^verbatim>\<open>int\<close> indices and \<^verbatim>\<open>float\<close> values, and the result of the call is
  the driver's. No call returns the result of another instance: a call that returns
  either returns a failure code of the checks, with the column and the log untouched,
  or returns what that instance returns, with a column of element type \<open>GDF_FLOAT32\<close>.
  The driver sets that element type for every value type it is instantiated with,
  \<^verbatim>\<open>double\<close> included.
\<close>

theorem entry_is_single_precision:
  "(0 \<le> cudaGetDeviceCount E \<and> cudaGetDeviceCount E < 2 ^ 31 - 1 \<and>
    n \<le> length src \<and> n \<le> length dest \<and> scalars_ok E n damping_factor n_iter \<and>
    \<not> length_mismatch src dest n \<and> \<not> dtype_unsupported src dest n \<and>
    \<not> nulls_present src dest n \<longrightarrow>
      gdf_snmg_pagerank E (Some src) (Some dest) (Some col) n damping_factor n_iter m =
        (case gdf_snmg_pagerank_impl c_int c_float E src dest col n damping_factor n_iter m of
           Inl f \<Rightarrow> Inl f
         | Inr (status, col1, m1) \<Rightarrow> Inr (status, Some col1, m1))) \<and>
   (gdf_snmg_pagerank E srcp destp colp n damping_factor n_iter m = Inr (st, colp', m') \<longrightarrow>
      (st \<noteq> GDF_SUCCESS \<and> colp' = colp \<and> m' = m) \<or>
      (\<exists>src1 dest1 col1 c1. srcp = Some src1 \<and> destp = Some dest1 \<and> colp = Some col1 \<and>
         colp' = Some c1 \<and> dtype c1 = GDF_FLOAT32 \<and>
         gdf_snmg_pagerank_impl c_int c_float E src1 dest1 col1 n damping_factor n_iter m =
           Inr (st, c1, m'))) \<and>
   (0 < k \<and>
    gdf_snmg_pagerank_impl idx_t val_t E src2 dest2 col2 k damping_factor2 n_iter2 m2 =
      Inr (st2, c2, m2') \<longrightarrow> dtype c2 = GDF_FLOAT32)"
proof (intro conjI impI)
  assume a: "0 \<le> cudaGetDeviceCount E \<and> cudaGetDeviceCount E < 2 ^ 31 - 1 \<and>
    n \<le> length src \<and> n \<le> length dest \<and> scalars_ok E n damping_factor n_iter \<and>
    \<not> length_mismatch src dest n \<and> \<not> dtype_unsupported src dest n \<and>
    \<not> nulls_present src dest n"
  then have dc: "0 \<le> cudaGetDeviceCount E" "cudaGetDeviceCount E < 2 ^ 31 - 1"
    and len: "n \<le> length src" "n \<le> length dest"
    and ok: "scalars_ok E n damping_factor n_iter"
    and clean: "\<not> length_mismatch src dest n" "\<not> dtype_unsupported src dest n"
      "\<not> nulls_present src dest n"
    by simp_all
  from first_failure_zip_SUCCESS[OF len] clean
  have "first_failure (zip (take n src) (take n dest)) = GDF_SUCCESS" by simp
  with entry_eq[OF dc len, of col damping_factor n_iter m] ok
  show "gdf_snmg_pagerank E (Some src) (Some dest) (Some col) n damping_factor n_iter m =
        (case gdf_snmg_pagerank_impl c_int c_float E src dest col n damping_factor n_iter m of
           Inl f \<Rightarrow> Inl f
         | Inr (status, col1, m1) \<Rightarrow> Inr (status, Some col1, m1))"
    by simp
next
  assume a: "gdf_snmg_pagerank E srcp destp colp n damping_factor n_iter m = Inr (st, colp', m')"
  show "(st \<noteq> GDF_SUCCESS \<and> colp' = colp \<and> m' = m) \<or>
      (\<exists>src1 dest1 col1 c1. srcp = Some src1 \<and> destp = Some dest1 \<and> colp = Some col1 \<and>
         colp' = Some c1 \<and> dtype c1 = GDF_FLOAT32 \<and>
         gdf_snmg_pagerank_impl c_int c_float E src1 dest1 col1 n damping_factor n_iter m =
           Inr (st, c1, m'))"
  proof (cases "st \<noteq> GDF_SUCCESS \<and> colp' = colp \<and> m' = m")
    case True
    then show ?thesis by blast
  next
    case False
    with entry_Inr[OF a] obtain src1 dest1 col1 c1 where
      p: "srcp = Some src1" "destp = Some dest1" "colp = Some col1" "colp' = Some c1" "0 < n" and
      i: "gdf_snmg_pagerank_impl c_int c_float E src1 dest1 col1 n damping_factor n_iter m =
            Inr (st, c1, m')"
      by blast
    from impl_dtype[OF i p(5)] have "dtype c1 = GDF_FLOAT32" .
    with p i show ?thesis by blast
  qed
next
  assume "0 < k \<and>
    gdf_snmg_pagerank_impl idx_t val_t E src2 dest2 col2 k damping_factor2 n_iter2 m2 =
      Inr (st2, c2, m2')"
  then have "0 < k" and
    i: "gdf_snmg_pagerank_impl idx_t val_t E src2 dest2 col2 k damping_factor2 n_iter2 m2 =
      Inr (st2, c2, m2')" by simp_all
  from impl_dtype[OF i \<open>0 < k\<close>] show "dtype c2 = GDF_FLOAT32" .
qed

theorem entry_is_single_precision_witness:
  "0 \<le> cudaGetDeviceCount (externals_fan GDF_SUCCESS) \<and>
   cudaGetDeviceCount (externals_fan GDF_SUCCESS) < 2 ^ 31 - 1 \<and>
   1 \<le> length [fan_src] \<and> 1 \<le> length [fan_dest] \<and>
   scalars_ok (externals_fan GDF_SUCCESS) 1 (Fin (17 / 20)) 1 \<and>
   \<not> length_mismatch [fan_src] [fan_dest] 1 \<and> \<not> dtype_unsupported [fan_src] [fan_dest] 1 \<and>
   \<not> nulls_present [fan_src] [fan_dest] 1 \<and>
   gdf_snmg_pagerank (externals_fan GDF_SUCCESS) (Some [fan_src]) (Some [fan_dest])
     (Some empty_col) 1 (Fin (17 / 20)) 1 [] =
     (case gdf_snmg_pagerank_impl c_int c_float (externals_fan GDF_SUCCESS) [fan_src] [fan_dest]
             empty_col 1 (Fin (17 / 20)) 1 [] of
        Inl f \<Rightarrow> Inl f
      | Inr (status, col1, m1) \<Rightarrow> Inr (status, Some col1, m1)) \<and>
   gdf_snmg_pagerank_impl c_int c_float (externals_fan GDF_SUCCESS) [fan_src] [fan_dest]
     empty_col 1 (Fin (17 / 20)) 1 [] =
   Inr (GDF_SUCCESS,
        \<lparr>data = ValueData (spec_solve collectives_1gpu 1 fan_ready [Fin 0, Fin 1, Fin 2]),
         size_col = 3, dtype = GDF_FLOAT32, null_count = 0\<rparr>,
        [Alloc (Bookmark 0) 12, Alloc (Val 0) 8, Alloc (DegreeLoc 0) 12, Free (DegreeLoc 0),
         Alloc (Pagerank 0) 12, Alloc PrColData 12, Free (Pagerank 0),
         Free (Bookmark 0), Free (Val 0)]) \<and>
   (0::nat) < 1 \<and>
   gdf_snmg_pagerank_impl c_int c_double (externals_fan GDF_SUCCESS) [fan_src] [fan_dest]
     empty_col 1 (Fin (17 / 20)) 1 [] =
   Inr (GDF_SUCCESS,
        \<lparr>data = ValueData (spec_solve collectives_1gpu 1 fan_ready [Fin 0, Fin 1, Fin 2]),
         size_col = 3, dtype = GDF_FLOAT32, null_count = 0\<rparr>,
        [Alloc (Bookmark 0) 24, Alloc (Val 0) 16, Alloc (DegreeLoc 0) 12, Free (DegreeLoc 0),
         Alloc (Pagerank 0) 24, Alloc PrColData 24, Free (Pagerank 0),
         Free (Bookmark 0), Free (Val 0)]) \<and>
   dtype \<lparr>data = ValueData (spec_solve collectives_1gpu 1 fan_ready [Fin 0, Fin 1, Fin 2]),
          size_col = 3, dtype = GDF_FLOAT32, null_count = 0\<rparr> = GDF_FLOAT32"
proof -
  let ?E = "externals_fan GDF_SUCCESS"
  let ?c = "\<lparr>data = ValueData (spec_solve collectives_1gpu 1 fan_ready [Fin 0, Fin 1, Fin 2]),
             size_col = 3, dtype = GDF_FLOAT32, null_count = 0\<rparr>"
  let ?ld = "[Alloc (Bookmark 0) 24, Alloc (Val 0) 16, Alloc (DegreeLoc 0) 12,
              Free (DegreeLoc 0), Alloc (Pagerank 0) 24, Alloc PrColData 24, Free (Pagerank 0),
              Free (Bookmark 0), Free (Val 0)]"
  have dc: "0 \<le> cudaGetDeviceCount ?E" "cudaGetDeviceCount ?E < 2 ^ 31 - 1"
    by (simp_all add: externals_fan_def)
  have len: "1 \<le> length [fan_src]" "1 \<le> length [fan_dest]" by simp_all
  have ok: "scalars_ok ?E 1 (Fin (17 / 20)) 1" by (rule scalars_ok_fan)
  have f: "gdf_snmg_pagerank_impl c_int c_float ?E [fan_src] [fan_dest]
     empty_col 1 (Fin (17 / 20)) 1 [] =
     Inr (GDF_SUCCESS, ?c,
        [Alloc (Bookmark 0) 12, Alloc (Val 0) 8, Alloc (DegreeLoc 0) 12, Free (DegreeLoc 0),
         Alloc (Pagerank 0) 12, Alloc PrColData 12, Free (Pagerank 0),
         Free (Bookmark 0), Free (Val 0)])"
    using impl_fan [of c_float GDF_SUCCESS] by simp
  have d: "gdf_snmg_pagerank_impl c_int c_double ?E [fan_src] [fan_dest]
     empty_col 1 (Fin (17 / 20)) 1 [] = Inr (GDF_SUCCESS, ?c, ?ld)"
    using impl_fan [of c_double GDF_SUCCESS] by simp
  have pos: "(0::nat) < 1" by simp
  note inst = entry_is_single_precision [where E = ?E and n = 1 and src = "[fan_src]"
      and dest = "[fan_dest]" and col = empty_col and damping_factor = "Fin (17 / 20)"
      and n_iter = 1 and m = "[]" and k = 1 and idx_t = c_int and val_t = c_double
      and ?src2.0 = "[fan_src]" and ?dest2.0 = "[fan_dest]"
      and ?col2.0 = empty_col and ?damping_factor2.0 = "Fin (17 / 20)" and ?n_iter2.0 = 1
      and ?m2.0 = "[]" and ?st2.0 = GDF_SUCCESS and ?c2.0 = ?c and m2' = ?ld]
  from inst dc len ok fan_pair_clean
  have disp: "gdf_snmg_pagerank ?E (Some [fan_src]) (Some [fan_dest])
     (Some empty_col) 1 (Fin (17 / 20)) 1 [] =
     (case gdf_snmg_pagerank_impl c_int c_float ?E [fan_src] [fan_dest]
             empty_col 1 (Fin (17 / 20)) 1 [] of
        Inl f \<Rightarrow> Inl f
      | Inr (status, col1, m1) \<Rightarrow> Inr (status, Some col1, m1))"
    by blast
  from inst pos d have dt: "dtype ?c = GDF_FLOAT32" by blast
  from dc len ok fan_pair_clean disp f pos d dt show ?thesis
    by (intro conjI)
qed

end
